theory Spec2Isabelle
  imports Main "HOL-Library.Word"
begin

section \<open>Python values, exceptions and string operations\<close>

text \<open>
  The assistant passes untyped dictionaries around (\<^verbatim>\<open>Dict[str, Any]\<close>): transcript
  messages, tool calls, tool arguments and tool results. \<open>pyval\<close> is the universe of
  these values: \<^verbatim>\<open>None\<close>, booleans, integers, strings, lists and dictionaries. A
  dictionary is an association list in insertion order. A \<^verbatim>\<open>str\<close> is modelled as a
  \<open>string\<close> whose characters are the code points below 256 (Latin-1); code points above
  that, floats and bytes objects are not values of the model.
\<close>

datatype pyval =
    PNone
  | PBool bool
  | PInt int
  | PStr string
  | PList "pyval list"
  | PDict "(pyval \<times> pyval) list"

text \<open>
  The exception classes the code catches or lets escape. \<open>ValueError\<close> and
  \<open>TypeError\<close> stand for the class and its subclasses (\<^verbatim>\<open>dateutil\<close>'s
  \<^verbatim>\<open>ParserError\<close> is a \<open>ValueError\<close>); \<open>OtherException\<close> is any other subclass
  of \<^verbatim>\<open>Exception\<close>. The string is \<^verbatim>\<open>str(exc)\<close>.
\<close>

datatype exc_kind =
  ValueError | TypeError | AttributeError | KeyError | IndexError | OtherException

datatype pyexc = PyExc exc_kind string

fun exc_kind_of :: "pyexc \<Rightarrow> exc_kind" where
  "exc_kind_of (PyExc k m) = k"

fun exc_text :: "pyexc \<Rightarrow> string" where
  "exc_text (PyExc k m) = m"

text \<open>Truth value of an object, as \<^verbatim>\<open>if x\<close>, \<^verbatim>\<open>not x\<close> and \<^verbatim>\<open>x or y\<close> test it.\<close>

fun truthy :: "pyval \<Rightarrow> bool" where
  "truthy PNone = False"
| "truthy (PBool b) = b"
| "truthy (PInt i) = (i \<noteq> 0)"
| "truthy (PStr s) = (s \<noteq> [])"
| "truthy (PList xs) = (xs \<noteq> [])"
| "truthy (PDict kvs) = (kvs \<noteq> [])"

fun type_name :: "pyval \<Rightarrow> string" where
  "type_name PNone = ''NoneType''"
| "type_name (PBool b) = ''bool''"
| "type_name (PInt i) = ''int''"
| "type_name (PStr s) = ''str''"
| "type_name (PList xs) = ''list''"
| "type_name (PDict kvs) = ''dict''"

fun hashable :: "pyval \<Rightarrow> bool" where
  "hashable (PList xs) = False"
| "hashable (PDict kvs) = False"
| "hashable v = True"

definition apos :: string where
  "apos = [CHR 0x27]"

definition newline :: string where
  "newline = [CHR 0x0A]"

subsection \<open>Characters and strings\<close>

definition is_space :: "char \<Rightarrow> bool" where
  \<comment> \<open>\<^verbatim>\<open>str.isspace\<close> on the code points below 256: TAB, LF, VT, FF, CR, FS, GS, RS, US,
      SPACE, NEL and NBSP.\<close>
  "is_space c = (c \<in> set [CHR 0x09, CHR 0x0A, CHR 0x0B, CHR 0x0C, CHR 0x0D,
       CHR 0x1C, CHR 0x1D, CHR 0x1E, CHR 0x1F, CHR 0x20, CHR 0x85, CHR 0xA0])"

definition strip_chars :: "(char \<Rightarrow> bool) \<Rightarrow> string \<Rightarrow> string" where
  "strip_chars p s = rev (dropWhile p (rev (dropWhile p s)))"

definition strip :: "string \<Rightarrow> string" where
  \<comment> \<open>\<^verbatim>\<open>s.strip()\<close>\<close>
  "strip s = strip_chars is_space s"

definition is_bullet_mark :: "char \<Rightarrow> bool" where
  \<comment> \<open>the characters of \<^verbatim>\<open>"-\<bullet> "\<close> that a model string can hold: the bullet U+2022
      is above the model's alphabet, so no character of a model string equals it.\<close>
  "is_bullet_mark c = (c = CHR ''-'' \<or> c = CHR '' '')"

definition lower_char :: "char \<Rightarrow> char" where
  \<comment> \<open>\<^verbatim>\<open>str.lower\<close> on one code point below 256: A-Z and the Latin-1 capitals
      U+00C0..U+00DE (without the multiplication sign U+00D7) move up by 32.\<close>
  "lower_char c =
     (let n = (of_char c :: nat)
      in if (65 \<le> n \<and> n \<le> 90) \<or> (192 \<le> n \<and> n \<le> 222 \<and> n \<noteq> 215)
         then char_of (n + 32) else c)"

definition lower :: "string \<Rightarrow> string" where
  "lower s = map lower_char s"

definition replace_space :: "string \<Rightarrow> string" where
  \<comment> \<open>\<^verbatim>\<open>s.replace(" ", "%20")\<close>\<close>
  "replace_space s = concat (map (\<lambda>c. if c = CHR '' '' then ''%20'' else [c]) s)"

definition is_linebreak :: "char \<Rightarrow> bool" where
  \<comment> \<open>the line boundaries of \<^verbatim>\<open>str.splitlines\<close> below 256: LF, VT, FF, CR, FS, GS, RS, NEL\<close>
  "is_linebreak c = (c \<in> set [CHR 0x0A, CHR 0x0B, CHR 0x0C, CHR 0x0D,
       CHR 0x1C, CHR 0x1D, CHR 0x1E, CHR 0x85])"

fun splitlines_from :: "string \<Rightarrow> string \<Rightarrow> string list" where
  \<comment> \<open>\<open>cur\<close> is the line read so far; CR LF is one boundary; no empty last line.\<close>
  "splitlines_from cur [] = (if cur = [] then [] else [cur])"
| "splitlines_from cur [c] =
     (if is_linebreak c then [cur] else [cur @ [c]])"
| "splitlines_from cur (c # d # cs) =
     (if c = CHR 0x0D \<and> d = CHR 0x0A then cur # splitlines_from [] cs
      else if is_linebreak c then cur # splitlines_from [] (d # cs)
      else splitlines_from (cur @ [c]) (d # cs))"

definition splitlines :: "string \<Rightarrow> string list" where
  "splitlines s = splitlines_from [] s"

fun join :: "string \<Rightarrow> string list \<Rightarrow> string" where
  \<comment> \<open>\<^verbatim>\<open>sep.join(xs)\<close>\<close>
  "join sep [] = []"
| "join sep [x] = x"
| "join sep (x # y # ys) = x @ sep @ join sep (y # ys)"

subsection \<open>Rendering values: \<^verbatim>\<open>str\<close> and \<^verbatim>\<open>repr\<close>\<close>

definition dec_digit :: "nat \<Rightarrow> char" where
  "dec_digit n = char_of (48 + n mod 10)"

function show_nat :: "nat \<Rightarrow> string" where
  "show_nat n = (if n < 10 then [dec_digit n] else show_nat (n div 10) @ [dec_digit n])"
  by pat_completeness auto
termination
  by (relation "measure id") auto

definition show_int :: "int \<Rightarrow> string" where
  "show_int i = (if i < 0 then CHR ''-'' # show_nat (nat (- i)) else show_nat (nat i))"

definition hex_digit :: "nat \<Rightarrow> char" where
  "hex_digit n = (if n mod 16 < 10 then char_of (48 + n mod 16) else char_of (87 + n mod 16))"

definition printable :: "char \<Rightarrow> bool" where
  \<comment> \<open>\<^verbatim>\<open>str.isprintable\<close> below 256: 0x20..0x7E and 0xA1..0xFF without the soft hyphen\<close>
  "printable c =
     (let n = (of_char c :: nat)
      in (32 \<le> n \<and> n \<le> 126) \<or> (161 \<le> n \<and> n \<noteq> 173))"

definition repr_char :: "char \<Rightarrow> char \<Rightarrow> string" where
  "repr_char quote c =
     (if c = quote \<or> c = CHR 0x5C then [CHR 0x5C, c]
      else if c = CHR 0x09 then [CHR 0x5C, CHR ''t'']
      else if c = CHR 0x0A then [CHR 0x5C, CHR ''n'']
      else if c = CHR 0x0D then [CHR 0x5C, CHR ''r'']
      else if printable c then [c]
      else [CHR 0x5C, CHR ''x'', hex_digit (of_char c div 16), hex_digit (of_char c)])"

definition repr_str :: "string \<Rightarrow> string" where
  \<comment> \<open>\<^verbatim>\<open>repr(s)\<close>: double quotes only when the string has a single quote and no double one\<close>
  "repr_str s =
     (let quote = (if CHR 0x27 \<in> set s \<and> CHR 0x22 \<notin> set s then CHR 0x22 else CHR 0x27)
      in quote # concat (map (repr_char quote) s) @ [quote])"

primrec repr :: "pyval \<Rightarrow> string" where
  "repr PNone = ''None''"
| "repr (PBool b) = (if b then ''True'' else ''False'')"
| "repr (PInt i) = show_int i"
| "repr (PStr s) = repr_str s"
| "repr (PList xs) = ''['' @ join '', '' (map repr xs) @ '']''"
| "repr (PDict kvs) =
     ''{'' @ join '', '' (map (\<lambda>kv. fst kv @ '': '' @ snd kv) (map (map_prod repr repr) kvs)) @ ''}''"

definition py_str :: "pyval \<Rightarrow> string" where
  \<comment> \<open>\<^verbatim>\<open>str(v)\<close>, which is what an f-string field \<^verbatim>\<open>{v}\<close> renders\<close>
  "py_str v = (case v of PStr s \<Rightarrow> s | _ \<Rightarrow> repr v)"

subsection \<open>Dictionaries, subscripts and attribute calls\<close>

definition dict_get :: "(pyval \<times> pyval) list \<Rightarrow> string \<Rightarrow> pyval option" where
  \<comment> \<open>lookup of a string key; no other value of the model equals a string\<close>
  "dict_get d k = map_of d (PStr k)"

definition get_or :: "(pyval \<times> pyval) list \<Rightarrow> string \<Rightarrow> pyval \<Rightarrow> pyval" where
  \<comment> \<open>\<^verbatim>\<open>d.get(k, default)\<close>; \<^verbatim>\<open>d.get(k)\<close> is \<open>get_or d k PNone\<close>\<close>
  "get_or d k dflt = (case dict_get d k of None \<Rightarrow> dflt | Some v \<Rightarrow> v)"

definition no_attribute :: "pyval \<Rightarrow> string \<Rightarrow> pyexc" where
  "no_attribute v a =
     PyExc AttributeError (apos @ type_name v @ apos @ '' object has no attribute '' @ apos @ a @ apos)"

definition py_strip :: "pyval \<Rightarrow> pyexc + string" where
  \<comment> \<open>\<^verbatim>\<open>v.strip()\<close>: only a string has the method\<close>
  "py_strip v = (case v of PStr s \<Rightarrow> Inr (strip s) | _ \<Rightarrow> Inl (no_attribute v ''strip''))"

definition py_lower :: "pyval \<Rightarrow> pyexc + string" where
  "py_lower v = (case v of PStr s \<Rightarrow> Inr (lower s) | _ \<Rightarrow> Inl (no_attribute v ''lower''))"

definition py_get :: "pyval \<Rightarrow> string \<Rightarrow> pyval \<Rightarrow> pyexc + pyval" where
  \<comment> \<open>\<^verbatim>\<open>v.get(k, default)\<close> on an arbitrary object: only a dictionary has the method\<close>
  "py_get v k dflt = (case v of PDict d \<Rightarrow> Inr (get_or d k dflt) | _ \<Rightarrow> Inl (no_attribute v ''get''))"

definition not_subscriptable :: "pyval \<Rightarrow> pyexc" where
  "not_subscriptable v = PyExc TypeError (apos @ type_name v @ apos @ '' object is not subscriptable'')"

definition py_item :: "pyval \<Rightarrow> string \<Rightarrow> pyexc + pyval" where
  \<comment> \<open>\<^verbatim>\<open>v[k]\<close> for a string key \<open>k\<close>\<close>
  "py_item v k =
     (case v of
        PDict d \<Rightarrow> (case dict_get d k of None \<Rightarrow> Inl (PyExc KeyError (repr_str k)) | Some x \<Rightarrow> Inr x)
      | PList xs \<Rightarrow> Inl (PyExc TypeError ''list indices must be integers or slices, not str'')
      | PStr s \<Rightarrow> Inl (PyExc TypeError (''string indices must be integers, not '' @ apos @ ''str'' @ apos))
      | _ \<Rightarrow> Inl (not_subscriptable v))"

definition is_zero_key :: "pyval \<Rightarrow> bool" where
  \<comment> \<open>the keys equal to the integer 0: \<^verbatim>\<open>0\<close> and \<^verbatim>\<open>False\<close>\<close>
  "is_zero_key k = (k = PInt 0 \<or> k = PBool False)"

definition py_index0 :: "pyval \<Rightarrow> pyexc + pyval" where
  \<comment> \<open>\<^verbatim>\<open>v[0]\<close>\<close>
  "py_index0 v =
     (case v of
        PList xs \<Rightarrow> (case xs of [] \<Rightarrow> Inl (PyExc IndexError ''list index out of range'') | x # _ \<Rightarrow> Inr x)
      | PStr s \<Rightarrow> (case s of [] \<Rightarrow> Inl (PyExc IndexError ''string index out of range'') | c # _ \<Rightarrow> Inr (PStr [c]))
      | PDict d \<Rightarrow> (case filter (\<lambda>kv. is_zero_key (fst kv)) d of
                      [] \<Rightarrow> Inl (PyExc KeyError ''0'') | kv # _ \<Rightarrow> Inr (snd kv))
      | _ \<Rightarrow> Inl (not_subscriptable v))"

text \<open>
  \<^verbatim>\<open>dict(v)\<close> for a value that is not a dictionary, as the dispatcher calls it: the
  elements of a list (or the characters of a string) must each be a sequence of length
  two, a key and a value; the key must be hashable; a later pair with an equal key
  replaces the value of the earlier one. \<^verbatim>\<open>True\<close> and \<^verbatim>\<open>1\<close> (and \<^verbatim>\<open>False\<close> and
  \<^verbatim>\<open>0\<close>) are equal keys.
\<close>

definition key_norm :: "pyval \<Rightarrow> pyval" where
  "key_norm k = (case k of PBool b \<Rightarrow> PInt (if b then 1 else 0) | _ \<Rightarrow> k)"

fun dict_set :: "(pyval \<times> pyval) list \<Rightarrow> pyval \<Rightarrow> pyval \<Rightarrow> (pyval \<times> pyval) list" where
  "dict_set [] k v = [(k, v)]"
| "dict_set ((k', v') # d) k v =
     (if key_norm k' = key_norm k then (k', v) # d else (k', v') # dict_set d k v)"

definition bad_length :: "nat \<Rightarrow> nat \<Rightarrow> pyexc" where
  "bad_length i n = PyExc ValueError
     (''dictionary update sequence element #'' @ show_nat i @ '' has length '' @ show_nat n
        @ ''; 2 is required'')"

definition pair_of_item :: "nat \<Rightarrow> pyval \<Rightarrow> pyexc + (pyval \<times> pyval)" where
  "pair_of_item i x =
     (case x of
        PList ys \<Rightarrow> (case ys of [a, b] \<Rightarrow> Inr (a, b) | _ \<Rightarrow> Inl (bad_length i (length ys)))
      | PStr s \<Rightarrow> (case s of [a, b] \<Rightarrow> Inr (PStr [a], PStr [b]) | _ \<Rightarrow> Inl (bad_length i (length s)))
      | PDict d \<Rightarrow> (case d of [a, b] \<Rightarrow> Inr (fst a, fst b) | _ \<Rightarrow> Inl (bad_length i (length d)))
      | _ \<Rightarrow> Inl (PyExc TypeError
                (''cannot convert dictionary update sequence element #'' @ show_nat i
                   @ '' to a sequence'')))"

fun dict_from_items :: "nat \<Rightarrow> (pyval \<times> pyval) list \<Rightarrow> pyval list \<Rightarrow> pyexc + (pyval \<times> pyval) list" where
  "dict_from_items i acc [] = Inr acc"
| "dict_from_items i acc (x # xs) =
     (case pair_of_item i x of
        Inl e \<Rightarrow> Inl e
      | Inr kv \<Rightarrow>
          if hashable (fst kv) then dict_from_items (Suc i) (dict_set acc (fst kv) (snd kv)) xs
          else Inl (PyExc TypeError (''unhashable type: '' @ apos @ type_name (fst kv) @ apos)))"

definition not_iterable :: "pyval \<Rightarrow> pyexc" where
  "not_iterable v = PyExc TypeError (apos @ type_name v @ apos @ '' object is not iterable'')"

definition py_dict :: "pyval \<Rightarrow> pyexc + (pyval \<times> pyval) list" where
  "py_dict v =
     (case v of
        PDict d \<Rightarrow> Inr d
      | PList xs \<Rightarrow> dict_from_items 0 [] xs
      | PStr s \<Rightarrow> dict_from_items 0 [] (map (\<lambda>c. PStr [c]) s)
      | _ \<Rightarrow> Inl (not_iterable v))"

definition py_iter :: "pyval \<Rightarrow> pyexc + pyval list" where
  \<comment> \<open>the elements a \<^verbatim>\<open>for\<close> loop over \<open>v\<close> visits\<close>
  "py_iter v =
     (case v of
        PList xs \<Rightarrow> Inr xs
      | PStr s \<Rightarrow> Inr (map (\<lambda>c. PStr [c]) s)
      | PDict d \<Rightarrow> Inr (map fst d)
      | _ \<Rightarrow> Inl (not_iterable v))"

definition bind_exc :: "'e + 'a \<Rightarrow> ('a \<Rightarrow> 'e + 'b) \<Rightarrow> 'e + 'b" where
  \<comment> \<open>run the second computation unless the first one raised\<close>
  "bind_exc m f = (case m of Inl e \<Rightarrow> Inl e | Inr x \<Rightarrow> f x)"

section \<open>Timestamps\<close>

text \<open>
  A \<^verbatim>\<open>datetime\<close> object, with the field ranges its constructor enforces left to the
  producer; \<open>utcoffset\<close> is the offset of an aware timestamp in whole minutes.
\<close>

record datetime =
  year :: nat
  month :: nat
  day :: nat
  hour :: nat
  minute :: nat
  second :: nat
  microsecond :: nat
  utcoffset :: "int option"

definition zero_pad :: "nat \<Rightarrow> nat \<Rightarrow> string" where
  \<comment> \<open>\<^verbatim>\<open>"%0wd" % n\<close>\<close>
  "zero_pad w n = replicate (w - length (show_nat n)) (CHR ''0'') @ show_nat n"

definition date_isoformat :: "datetime \<Rightarrow> string" where
  \<comment> \<open>\<^verbatim>\<open>d.date().isoformat()\<close>\<close>
  "date_isoformat d = zero_pad 4 (year d) @ ''-'' @ zero_pad 2 (month d) @ ''-'' @ zero_pad 2 (day d)"

definition offset_isoformat :: "int \<Rightarrow> string" where
  "offset_isoformat off =
     (if off < 0 then ''-'' else ''+'')
       @ zero_pad 2 (nat \<bar>off\<bar> div 60) @ '':'' @ zero_pad 2 (nat \<bar>off\<bar> mod 60)"

definition isoformat :: "datetime \<Rightarrow> string" where
  \<comment> \<open>\<^verbatim>\<open>d.isoformat()\<close>\<close>
  "isoformat d =
     date_isoformat d @ ''T''
       @ zero_pad 2 (hour d) @ '':'' @ zero_pad 2 (minute d) @ '':'' @ zero_pad 2 (second d)
       @ (if microsecond d = 0 then [] else ''.'' @ zero_pad 6 (microsecond d))
       @ (case utcoffset d of None \<Rightarrow> [] | Some off \<Rightarrow> offset_isoformat off)"

section \<open>The assistant and its collaborators\<close>

text \<open>
  What the assistant calls but does not contain is a parameter of the model:
  the Gemini backend (\<open>generate_content\<close>, from the transcript to the candidates'
  contents), the HTTP providers (\<open>http_get_json\<close>: \<^verbatim>\<open>requests.get\<close> with its timeout,
  \<^verbatim>\<open>raise_for_status\<close> and \<^verbatim>\<open>json\<close>), \<^verbatim>\<open>dateutil\<close>'s parser (\<open>date_parse\<close>) and
  floating point (\<open>to_float\<close> is \<^verbatim>\<open>float(v)\<close>, \<open>format_0f\<close> is the format
  \<^verbatim>\<open>{x:.0f}\<close>; \<open>'f\<close> is the type of floats).
\<close>

datatype content =
    ContentDict "(pyval \<times> pyval) list"
  | ContentProto "(pyval \<times> pyval) list"
  | ContentOther string

record 'f env =
  generate_content :: "pyval list \<Rightarrow> pyexc + content list"
  http_get_json :: "string \<Rightarrow> pyexc + pyval"
  date_parse :: "pyval \<Rightarrow> pyexc + datetime"
  to_float :: "pyval \<Rightarrow> pyexc + 'f"
  format_0f :: "'f \<Rightarrow> string"

record assistant_state =
  reminders :: "pyval list"
  calendar_seed :: "(string \<times> pyval list) list"

record session =
  history :: "pyval list"
  state :: assistant_state

definition error_result :: "string \<Rightarrow> pyval" where
  \<comment> \<open>\<^verbatim>\<open>{"error": msg}\<close>\<close>
  "error_result msg = PDict [(PStr ''error'', PStr msg)]"

subsection \<open>Tool handlers\<close>

definition resolve_unit :: "(pyval \<times> pyval) list \<Rightarrow> pyexc + string" where
  \<comment> \<open>lines 187-189 of \<^verbatim>\<open>_tool_get_weather_forecast\<close>\<close>
  "resolve_unit arguments =
     bind_exc (py_lower (let u = get_or arguments ''unit'' PNone
                         in if truthy u then u else PStr ''fahrenheit''))
       (\<lambda>unit. Inr (if unit \<notin> {''fahrenheit'', ''celsius''} then ''fahrenheit'' else unit))"

definition degree :: string where
  \<comment> \<open>the degree sign U+00B0\<close>
  "degree = [CHR 0xB0]"

definition float_field :: "'f env \<Rightarrow> pyval \<Rightarrow> string \<Rightarrow> pyexc + 'f" where
  \<comment> \<open>\<^verbatim>\<open>float(condition.get(key, 0))\<close>\<close>
  "float_field env condition key = bind_exc (py_get condition key (PInt 0)) (to_float env)"

definition float_field_or :: "'f env \<Rightarrow> pyval \<Rightarrow> string \<Rightarrow> 'f \<Rightarrow> pyexc + 'f" where
  \<comment> \<open>\<^verbatim>\<open>float(condition.get(key, x))\<close> for a float \<open>x\<close>\<close>
  "float_field_or env condition key x =
     (case condition of
        PDict d \<Rightarrow> (case dict_get d key of None \<Rightarrow> Inr x | Some v \<Rightarrow> to_float env v)
      | _ \<Rightarrow> Inl (no_attribute condition ''get''))"

definition weather_lookup :: "'f env \<Rightarrow> string \<Rightarrow> string \<Rightarrow> string \<Rightarrow> pyexc + pyval" where
  \<comment> \<open>the body of the \<^verbatim>\<open>try\<close> block\<close>
  "weather_lookup env location unit query =
     bind_exc (http_get_json env (''https://wttr.in/'' @ query @ ''?format=j1'')) (\<lambda>payload.
     bind_exc (bind_exc (py_item payload ''current_condition'') py_index0) (\<lambda>condition.
     bind_exc (bind_exc (bind_exc (py_item condition ''weatherDesc'') py_index0)
                 (\<lambda>d. py_item d ''value'')) (\<lambda>summary.
     bind_exc (float_field env condition ''temp_C'') (\<lambda>temp_c.
     bind_exc (float_field env condition ''temp_F'') (\<lambda>temp_f.
     bind_exc (py_get condition ''humidity'' (PStr ''?'')) (\<lambda>humidity.
     bind_exc (float_field_or env condition ''FeelsLikeC'' temp_c) (\<lambda>feels_c.
     bind_exc (float_field_or env condition ''FeelsLikeF'' temp_f) (\<lambda>feels_f.
     bind_exc (bind_exc (bind_exc (bind_exc (bind_exc
                 (py_get payload ''nearest_area'' (PList [PDict []])) py_index0)
                 (\<lambda>a. py_get a ''areaName'' (PList [PDict []]))) py_index0)
                 (\<lambda>a. py_get a ''value'' (PStr location))) (\<lambda>area_name.
       let temp = (if unit = ''fahrenheit'' then temp_f else temp_c);
           feels_like = (if unit = ''fahrenheit'' then feels_f else feels_c);
           unit_symbol = (if unit = ''fahrenheit'' then degree @ ''F'' else degree @ ''C'')
       in Inr (PDict
            [(PStr ''location'', area_name),
             (PStr ''summary'', summary),
             (PStr ''temperature'', PStr (format_0f env temp @ unit_symbol)),
             (PStr ''feels_like'', PStr (format_0f env feels_like @ unit_symbol)),
             (PStr ''humidity'', PStr (py_str humidity @ ''%'')),
             (PStr ''source'', PStr ''wttr.in'')]))))))))))"

definition tool_get_weather_forecast :: "'f env \<Rightarrow> (pyval \<times> pyval) list \<Rightarrow> pyexc + pyval" where
  "tool_get_weather_forecast env arguments =
     bind_exc (py_strip (get_or arguments ''location'' (PStr ''''))) (\<lambda>location.
     bind_exc (resolve_unit arguments) (\<lambda>unit.
       if location = [] then Inr (error_result ''Missing location.'')
       else
         let query = replace_space location
         in case weather_lookup env location unit query of
              Inr result \<Rightarrow> Inr result
            | Inl exc \<Rightarrow>
                Inr (PDict
                  [(PStr ''location'', PStr location),
                   (PStr ''error'', PStr (''Weather provider unavailable: '' @ exc_text exc))])))"

definition tool_list_calendar_agenda ::
  "'f env \<Rightarrow> assistant_state \<Rightarrow> (pyval \<times> pyval) list \<Rightarrow> (pyexc + pyval) \<times> assistant_state" where
  "tool_list_calendar_agenda env st arguments =
     (let date_str = get_or arguments ''date'' PNone
      in if \<not> truthy date_str then (Inr (error_result ''Provide a date in YYYY-MM-DD format.''), st)
         else case date_parse env date_str of
                Inl exc \<Rightarrow>
                  if exc_kind_of exc \<in> {ValueError, TypeError}
                  then (Inr (error_result (''Invalid date: '' @ exc_text exc)), st)
                  else (Inl exc, st)
              | Inr parsed \<Rightarrow>
                  let agenda = (case map_of (calendar_seed st) (date_isoformat parsed) of
                                  None \<Rightarrow> [] | Some events \<Rightarrow> events)
                  in (Inr (PDict [(PStr ''date'', PStr (date_isoformat parsed)),
                                  (PStr ''events'', PList agenda)]), st))"

definition tool_create_reminder ::
  "'f env \<Rightarrow> assistant_state \<Rightarrow> (pyval \<times> pyval) list \<Rightarrow> (pyexc + pyval) \<times> assistant_state" where
  "tool_create_reminder env st arguments =
     (case py_strip (get_or arguments ''summary'' (PStr '''')) of
        Inl exc \<Rightarrow> (Inl exc, st)
      | Inr summary \<Rightarrow>
          let due_time_raw = get_or arguments ''due_time'' PNone
          in if summary = [] then (Inr (error_result ''Reminder summary cannot be empty.''), st)
             else if \<not> truthy due_time_raw
             then (Inr (error_result ''Provide a due_time in ISO-8601 format.''), st)
             else case date_parse env due_time_raw of
                    Inl exc \<Rightarrow>
                      if exc_kind_of exc \<in> {ValueError, TypeError}
                      then (Inr (error_result (''Invalid due_time: '' @ exc_text exc)), st)
                      else (Inl exc, st)
                  | Inr due_time \<Rightarrow>
                      let reminder = PDict [(PStr ''summary'', PStr summary),
                                            (PStr ''due_time'', PStr (isoformat due_time))];
                          st' = st\<lparr>reminders := reminders st @ [reminder]\<rparr>
                      in (Inr (PDict [(PStr ''status'', PStr ''stored''),
                                      (PStr ''reminder'', reminder),
                                      (PStr ''total'', PInt (int (length (reminders st'))))]), st'))"

definition wikipedia_lookup :: "'f env \<Rightarrow> string \<Rightarrow> string \<Rightarrow> pyexc + pyval" where
  \<comment> \<open>the body of the \<^verbatim>\<open>try\<close> block of \<^verbatim>\<open>_tool_search_public_info\<close>\<close>
  "wikipedia_lookup env topic endpoint =
     bind_exc (http_get_json env endpoint) (\<lambda>data.
     bind_exc (bind_exc (py_get data ''extract'' PNone)
                 (\<lambda>e. if truthy e then Inr e else py_get data ''description'' PNone)) (\<lambda>summary.
     bind_exc (py_get data ''title'' (PStr topic)) (\<lambda>title.
     bind_exc (bind_exc (bind_exc (py_get data ''content_urls'' (PDict []))
                 (\<lambda>u. py_get u ''desktop'' (PDict [])))
                 (\<lambda>u. py_get u ''page'' PNone)) (\<lambda>url.
       Inr (PDict
            [(PStr ''title'', title),
             (PStr ''summary'', summary),
             (PStr ''url'', url),
             (PStr ''source'', PStr ''wikipedia'')])))))"

definition tool_search_public_info :: "'f env \<Rightarrow> (pyval \<times> pyval) list \<Rightarrow> pyexc + pyval" where
  "tool_search_public_info env arguments =
     bind_exc (py_strip (get_or arguments ''topic'' (PStr ''''))) (\<lambda>topic.
       if topic = [] then Inr (error_result ''Topic cannot be empty.'')
       else
         let endpoint = ''https://en.wikipedia.org/api/rest_v1/page/summary/'' @ replace_space topic
         in case wikipedia_lookup env topic endpoint of
              Inr result \<Rightarrow> Inr result
            | Inl exc \<Rightarrow>
                Inr (PDict
                  [(PStr ''topic'', PStr topic),
                   (PStr ''error'', PStr (''Wikipedia lookup failed: '' @ exc_text exc))]))"

definition or_default :: "string \<Rightarrow> string \<Rightarrow> string" where
  \<comment> \<open>\<^verbatim>\<open>s or default\<close> on strings\<close>
  "or_default s dflt = (if s = [] then dflt else s)"

definition outline_bullets :: "string \<Rightarrow> string list" where
  \<comment> \<open>the list comprehension of line 286\<close>
  "outline_bullets outline_raw =
     map (strip_chars is_bullet_mark) (filter (\<lambda>line. strip line \<noteq> []) (splitlines outline_raw))"

definition email_body :: "string \<Rightarrow> string \<Rightarrow> string list \<Rightarrow> string list" where
  \<comment> \<open>\<^verbatim>\<open>body_paragraphs\<close>, lines 288-297\<close>
  "email_body recipient subject bullets =
     [''Hi '' @ recipient @ '','',
      ''I hope you'' @ apos @ ''re doing well. I'' @ apos @ ''m reaching out about ''
        @ lower subject @ ''.'']
     @ (if bullets \<noteq> [] then ''Here are the key points:'' # map (\<lambda>bullet. ''- '' @ bullet) bullets
        else [])
     @ [''Let me know if you have any questions or need more detail.'',
        ''Best,'' @ newline @ ''Your Assistant'']"

definition tool_draft_email_outline :: "(pyval \<times> pyval) list \<Rightarrow> pyexc + pyval" where
  "tool_draft_email_outline arguments =
     bind_exc (py_strip (get_or arguments ''recipient'' (PStr ''there''))) (\<lambda>r.
     let recipient = or_default r ''there'' in
     bind_exc (py_strip (get_or arguments ''subject'' (PStr ''Quick update''))) (\<lambda>sj.
     let subject = or_default sj ''Quick update'' in
     bind_exc (py_strip (get_or arguments ''outline'' (PStr ''''))) (\<lambda>outline_raw.
     let bullets = outline_bullets outline_raw
     in Inr (PDict
          [(PStr ''subject'', PStr subject),
           (PStr ''body'', PStr (join newline (email_body recipient subject bullets)))]))))"

subsection \<open>Tool dispatch\<close>

definition TOOL_NAMES :: "string list" where
  "TOOL_NAMES =
     [''get_weather_forecast'', ''list_calendar_agenda'', ''create_reminder'',
      ''search_public_info'', ''draft_email_outline'']"

definition call_handler ::
  "'f env \<Rightarrow> assistant_state \<Rightarrow> string \<Rightarrow> (pyval \<times> pyval) list \<Rightarrow> (pyexc + pyval) \<times> assistant_state" where
  \<comment> \<open>\<^verbatim>\<open>handlers[name](arguments)\<close>; only two handlers touch the assistant state\<close>
  "call_handler env st name arguments =
     (if name = ''get_weather_forecast'' then (tool_get_weather_forecast env arguments, st)
      else if name = ''list_calendar_agenda'' then tool_list_calendar_agenda env st arguments
      else if name = ''create_reminder'' then tool_create_reminder env st arguments
      else if name = ''search_public_info'' then (tool_search_public_info env arguments, st)
      else if name = ''draft_email_outline'' then (tool_draft_email_outline arguments, st)
      else (Inl (PyExc KeyError (repr_str name)), st))"

definition dispatch_tool_call ::
  "'f env \<Rightarrow> assistant_state \<Rightarrow> pyval \<Rightarrow> (pyexc + pyval) \<times> assistant_state" where
  "dispatch_tool_call env st function_call =
     (case py_get function_call ''name'' PNone of
        Inl exc \<Rightarrow> (Inl exc, st)
      | Inr name \<Rightarrow>
          if \<not> hashable name
          then (Inl (PyExc TypeError (''unhashable type: '' @ apos @ type_name name @ apos)), st)
          else if name \<notin> PStr ` set TOOL_NAMES
          then (Inr (error_result (''Tool '' @ apos @ py_str name @ apos @ '' is not available.'')), st)
          else case bind_exc (py_get function_call ''args'' (PDict [])) py_dict of
                 Inl exc \<Rightarrow> (Inl exc, st)
               | Inr arguments \<Rightarrow> call_handler env st (py_str name) arguments)"

subsection \<open>The orchestration loop\<close>

definition content_to_dict :: "content \<Rightarrow> pyexc + (pyval \<times> pyval) list" where
  "content_to_dict c =
     (case c of
        ContentDict d \<Rightarrow> Inr d
      | ContentProto d \<Rightarrow> Inr d
      | ContentOther ty \<Rightarrow> Inl (PyExc TypeError (''Unsupported content representation: '' @ ty)))"

fun collect_calls :: "pyval list \<Rightarrow> pyexc + pyval list" where
  "collect_calls [] = Inr []"
| "collect_calls (part # rest) =
     bind_exc (py_get part ''function_call'' PNone) (\<lambda>fn_call.
     bind_exc (collect_calls rest) (\<lambda>calls.
       Inr (if truthy fn_call then fn_call # calls else calls)))"

definition extract_function_calls :: "(pyval \<times> pyval) list \<Rightarrow> pyexc + pyval list" where
  "extract_function_calls message =
     bind_exc (py_iter (get_or message ''parts'' (PList []))) collect_calls"

definition tool_message :: "pyval \<Rightarrow> pyval \<Rightarrow> pyval" where
  "tool_message name tool_response =
     PDict [(PStr ''role'', PStr ''tool''),
            (PStr ''parts'',
             PList [PDict [(PStr ''function_response'',
                            PDict [(PStr ''name'', name), (PStr ''response'', tool_response)])]])]"

fun dispatch_all :: "'f env \<Rightarrow> session \<Rightarrow> pyval list \<Rightarrow> pyexc option \<times> session" where
  \<comment> \<open>the \<^verbatim>\<open>for\<close> loop over the requested calls; the first exception ends it\<close>
  "dispatch_all env s [] = (None, s)"
| "dispatch_all env s (function_call # rest) =
     (case dispatch_tool_call env (state s) function_call of
        (Inl exc, st') \<Rightarrow> (Some exc, s\<lparr>state := st'\<rparr>)
      | (Inr tool_response, st') \<Rightarrow>
          (case py_item function_call ''name'' of
             Inl exc \<Rightarrow> (Some exc, s\<lparr>state := st'\<rparr>)
           | Inr name \<Rightarrow>
               dispatch_all env
                 (s\<lparr>history := history s @ [tool_message name tool_response], state := st'\<rparr>) rest))"

datatype round_result = Finished "(pyval \<times> pyval) list" | Continue | Raised pyexc

definition model_round :: "'f env \<Rightarrow> session \<Rightarrow> round_result \<times> session" where
  \<comment> \<open>one pass through the body of \<^verbatim>\<open>while True\<close>\<close>
  "model_round env s =
     (case generate_content env (history s) of
        Inl exc \<Rightarrow> (Raised exc, s)
      | Inr candidates \<Rightarrow>
          (case candidates of
             [] \<Rightarrow> (Raised (PyExc IndexError ''list index out of range''), s)
           | candidate # _ \<Rightarrow>
               (case content_to_dict candidate of
                  Inl exc \<Rightarrow> (Raised exc, s)
                | Inr model_message \<Rightarrow>
                    let s1 = s\<lparr>history := history s @ [PDict model_message]\<rparr>
                    in case extract_function_calls model_message of
                         Inl exc \<Rightarrow> (Raised exc, s1)
                       | Inr function_calls \<Rightarrow>
                           if function_calls = [] then (Finished model_message, s1)
                           else case dispatch_all env s1 function_calls of
                                  (Some exc, s2) \<Rightarrow> (Raised exc, s2)
                                | (None, s2) \<Rightarrow> (Continue, s2))))"

partial_function (option) generate_until_complete ::
  "'f env \<Rightarrow> session \<Rightarrow> ((pyexc + (pyval \<times> pyval) list) \<times> session) option" where
  "generate_until_complete env s =
     (case model_round env s of
        (Finished model_message, s') \<Rightarrow> Some (Inr model_message, s')
      | (Raised exc, s') \<Rightarrow> Some (Inl exc, s')
      | (Continue, s') \<Rightarrow> generate_until_complete env s')"

declare generate_until_complete.simps [code]

subsection \<open>The public operations\<close>

definition b64_char :: "nat \<Rightarrow> char" where
  "b64_char n =
     ''ABCDEFGHIJKLMNOPQRSTUVWXYZabcdefghijklmnopqrstuvwxyz0123456789+/'' ! (n mod 64)"

fun b64encode :: "8 word list \<Rightarrow> string" where
  "b64encode [] = []"
| "b64encode [a] =
     [b64_char (unat a div 4), b64_char (unat a mod 4 * 16), CHR ''='', CHR ''='']"
| "b64encode [a, b] =
     [b64_char (unat a div 4), b64_char (unat a mod 4 * 16 + unat b div 16),
      b64_char (unat b mod 16 * 4), CHR ''='']"
| "b64encode (a # b # c # rest) =
     [b64_char (unat a div 4), b64_char (unat a mod 4 * 16 + unat b div 16),
      b64_char (unat b mod 16 * 4 + unat c div 64), b64_char (unat c mod 64)]
     @ b64encode rest"

definition build_user_message :: "string \<Rightarrow> 8 word list option \<Rightarrow> string \<Rightarrow> pyval" where
  "build_user_message prompt image_bytes mime_type =
     PDict [(PStr ''role'', PStr ''user''),
            (PStr ''parts'',
             PList ((if prompt \<noteq> [] then [PDict [(PStr ''text'', PStr prompt)]] else [])
               @ (case image_bytes of
                    None \<Rightarrow> []
                  | Some bytes \<Rightarrow>
                      [PDict [(PStr ''inline_data'',
                               PDict [(PStr ''mime_type'', PStr mime_type),
                                      (PStr ''data'', PStr (b64encode bytes))])]])))]"

fun has_substring :: "string \<Rightarrow> string \<Rightarrow> bool" where
  "has_substring p [] = (p = [])"
| "has_substring p (c # cs) = (take (length p) (c # cs) = p \<or> has_substring p cs)"

definition contains_text :: "pyval \<Rightarrow> pyexc + bool" where
  \<comment> \<open>\<^verbatim>\<open>"text" in part\<close>\<close>
  "contains_text part =
     (case part of
        PDict d \<Rightarrow> Inr (dict_get d ''text'' \<noteq> None)
      | PStr s \<Rightarrow> Inr (has_substring ''text'' s)
      | PList xs \<Rightarrow> Inr (PStr ''text'' \<in> set xs)
      | _ \<Rightarrow> Inl (PyExc TypeError
                (''argument of type '' @ apos @ type_name part @ apos @ '' is not iterable'')))"

fun collect_texts :: "pyval list \<Rightarrow> pyexc + pyval list" where
  \<comment> \<open>\<^verbatim>\<open>[part.get("text", "") for part in parts if "text" in part]\<close>\<close>
  "collect_texts [] = Inr []"
| "collect_texts (part # rest) =
     bind_exc (contains_text part) (\<lambda>has.
       if has
       then bind_exc (py_get part ''text'' (PStr '''')) (\<lambda>t.
            bind_exc (collect_texts rest) (\<lambda>ts. Inr (t # ts)))
       else collect_texts rest)"

fun strip_all :: "pyval list \<Rightarrow> pyexc + string list" where
  "strip_all [] = Inr []"
| "strip_all (t # ts) =
     bind_exc (py_strip t) (\<lambda>x. bind_exc (strip_all ts) (\<lambda>xs. Inr (x # xs)))"

definition parts_to_text :: "pyval \<Rightarrow> pyexc + string" where
  "parts_to_text parts =
     bind_exc (py_iter parts) (\<lambda>ps.
     bind_exc (collect_texts ps) (\<lambda>texts.
     bind_exc (strip_all texts) (\<lambda>stripped.
       Inr (join newline (filter (\<lambda>t. t \<noteq> []) stripped)))))"

definition reset :: "session \<Rightarrow> session" where
  "reset s = s\<lparr>history := []\<rparr>"

definition chat ::
  "'f env \<Rightarrow> session \<Rightarrow> string \<Rightarrow> 8 word list option \<Rightarrow> string \<Rightarrow> ((pyexc + string) \<times> session) option" where
  \<comment> \<open>\<open>None\<close>: the call never returns\<close>
  "chat env s prompt image_bytes mime_type =
     (if prompt = [] \<and> image_bytes = None
      then Some (Inl (PyExc ValueError ''Provide text, an image, or both.''), s)
      else
        let user_message = build_user_message prompt image_bytes mime_type
        in case generate_until_complete env (s\<lparr>history := history s @ [user_message]\<rparr>) of
             None \<Rightarrow> None
           | Some (Inl exc, s') \<Rightarrow> Some (Inl exc, s')
           | Some (Inr response, s') \<Rightarrow>
               (case parts_to_text (get_or response ''parts'' (PList [])) of
                  Inl exc \<Rightarrow> Some (Inl exc, s')
                | Inr text \<Rightarrow> Some (Inr text, s')))"

section \<open>Sample collaborators\<close>

text \<open>
  Concrete collaborators on which the operations can be run. \<open>sample_parse\<close> knows a few
  inputs and answers them as \<^verbatim>\<open>dateutil\<close> does (a string it does not know is rejected with
  \<^verbatim>\<open>ParserError\<close>, a \<open>ValueError\<close>; a value that is no string with \<open>TypeError\<close>);
  \<open>sample_float\<close> reads integers and strings of decimal digits, and \<open>show_int\<close> is
  \<^verbatim>\<open>{x:.0f}\<close> on such values; \<open>sample_http\<close> answers every request with one
  weather report.
\<close>

definition march_first :: datetime where
  "march_first =
     \<lparr>year = 2024, month = 3, day = 1, hour = 9, minute = 0, second = 0, microsecond = 0,
      utcoffset = None\<rparr>"

definition sample_parse :: "pyval \<Rightarrow> pyexc + datetime" where
  "sample_parse v =
     (case v of
        PStr s \<Rightarrow>
          if s = ''2024-03-01T09:00:00'' \<or> s = ''March 1 2024 9am'' then Inr march_first
          else if s = ''2024-03-02''
          then Inr (march_first\<lparr>day := 2, hour := 0\<rparr>)
          else Inl (PyExc ValueError (''Unknown string format: '' @ s))
      | _ \<Rightarrow> Inl (PyExc TypeError
                (''Parser must be a string or character stream, not '' @ type_name v)))"

definition digit_value :: "char \<Rightarrow> int" where
  "digit_value c = int (of_char c) - 48"

definition sample_float :: "pyval \<Rightarrow> pyexc + int" where
  "sample_float v =
     (case v of
        PInt i \<Rightarrow> Inr i
      | PBool b \<Rightarrow> Inr (if b then 1 else 0)
      | PStr s \<Rightarrow>
          if s \<noteq> [] \<and> list_all (\<lambda>c. c \<in> set ''0123456789'') s
          then Inr (foldl (\<lambda>acc c. 10 * acc + digit_value c) 0 s)
          else Inl (PyExc ValueError (''could not convert string to float: '' @ repr_str s))
      | _ \<Rightarrow> Inl (PyExc TypeError
                (''float() argument must be a string or a real number, not '' @ apos
                   @ type_name v @ apos)))"

definition sample_report :: pyval where
  "sample_report =
     PDict
       [(PStr ''current_condition'',
         PList [PDict [(PStr ''temp_C'', PStr ''12''), (PStr ''temp_F'', PStr ''54''),
                       (PStr ''FeelsLikeC'', PStr ''11''), (PStr ''FeelsLikeF'', PStr ''52''),
                       (PStr ''humidity'', PStr ''71''),
                       (PStr ''weatherDesc'', PList [PDict [(PStr ''value'', PStr ''Sunny'')]])]]),
        (PStr ''nearest_area'',
         PList [PDict [(PStr ''areaName'', PList [PDict [(PStr ''value'', PStr ''Paris'')]])]])]"

definition text_reply :: content where
  \<comment> \<open>a model message with one text part\<close>
  "text_reply =
     ContentDict [(PStr ''role'', PStr ''model''),
                  (PStr ''parts'', PList [PDict [(PStr ''text'', PStr ''Done.'')]])]"

definition tool_request :: "string \<Rightarrow> (pyval \<times> pyval) list \<Rightarrow> content" where
  \<comment> \<open>a model message with one tool call\<close>
  "tool_request name args =
     ContentDict [(PStr ''role'', PStr ''model''),
                  (PStr ''parts'',
                   PList [PDict [(PStr ''function_call'',
                                  PDict [(PStr ''name'', PStr name), (PStr ''args'', PDict args)])]])]"

definition sample_backend :: "pyval list \<Rightarrow> pyexc + content list" where
  \<comment> \<open>asks for a reminder on the first round and answers in text afterwards\<close>
  "sample_backend contents =
     (if length contents \<le> 1
      then Inr [tool_request ''create_reminder''
                  [(PStr ''summary'', PStr ''Pay rent''),
                   (PStr ''due_time'', PStr ''2024-03-01T09:00:00'')]]
      else Inr [text_reply])"

definition sample_env :: "int env" where
  "sample_env =
     \<lparr>generate_content = sample_backend,
      http_get_json = (\<lambda>url. Inr sample_report),
      date_parse = sample_parse,
      to_float = sample_float,
      format_0f = show_int\<rparr>"

definition looping_env :: "int env" where
  \<comment> \<open>a backend that requests a tool call on every round\<close>
  "looping_env = sample_env\<lparr>generate_content := (\<lambda>contents. Inr [tool_request ''unknown_tool'' []])\<rparr>"

definition empty_state :: assistant_state where
  "empty_state = \<lparr>reminders = [], calendar_seed = []\<rparr>"

definition empty_session :: session where
  "empty_session = \<lparr>history = [], state = empty_state\<rparr>"

section \<open>Drivers for the stated properties\<close>

fun create_reminders ::
  "'f env \<Rightarrow> assistant_state \<Rightarrow> (pyval \<times> pyval) list list \<Rightarrow> (pyexc + pyval) list \<times> assistant_state" where
  \<comment> \<open>sequential calls of \<^verbatim>\<open>create_reminder\<close>, with the results in call order\<close>
  "create_reminders env st [] = ([], st)"
| "create_reminders env st (arguments # rest) =
     (case tool_create_reminder env st arguments of
        (r, st') \<Rightarrow> (case create_reminders env st' rest of (rs, st'') \<Rightarrow> (r # rs, st'')))"

definition valid_reminder :: "'f env \<Rightarrow> (pyval \<times> pyval) list \<Rightarrow> bool" where
  \<comment> \<open>a summary that is a string with something left after trimming, and a due time the
      parser accepts\<close>
  "valid_reminder env arguments =
     (case get_or arguments ''summary'' (PStr '''') of
        PStr s \<Rightarrow>
          strip s \<noteq> [] \<and> truthy (get_or arguments ''due_time'' PNone)
            \<and> (case date_parse env (get_or arguments ''due_time'' PNone) of
                  Inl exc \<Rightarrow> False | Inr d \<Rightarrow> True)
      | _ \<Rightarrow> False)"

definition result_field :: "pyexc + pyval \<Rightarrow> string \<Rightarrow> pyval option" where
  \<comment> \<open>the value under a key of a returned result; \<open>None\<close> when the key is absent, the
      result is no dictionary, or the call raised\<close>
  "result_field r k = (case r of Inr (PDict d) \<Rightarrow> dict_get d k | _ \<Rightarrow> None)"

definition pay_rent_args :: "(pyval \<times> pyval) list" where
  "pay_rent_args =
     [(PStr ''summary'', PStr ''Pay rent''), (PStr ''due_time'', PStr ''2024-03-01T09:00:00'')]"

definition call_sam_args :: "(pyval \<times> pyval) list" where
  "call_sam_args =
     [(PStr ''summary'', PStr '' Call Sam ''), (PStr ''due_time'', PStr ''March 1 2024 9am'')]"


definition last_due_time :: "assistant_state \<Rightarrow> pyval option" where
  \<comment> \<open>the \<^verbatim>\<open>due_time\<close> of the reminder stored last\<close>
  "last_due_time st =
     (case rev (reminders st) of
        [] \<Rightarrow> None
      | r # _ \<Rightarrow> (case r of PDict d \<Rightarrow> dict_get d ''due_time'' | _ \<Rightarrow> None))"



definition paris_args :: "(pyval \<times> pyval) list" where
  \<comment> \<open>\<^verbatim>\<open>{location: "Paris", unit: "CELSIUS"}\<close>\<close>
  "paris_args = [(PStr ''location'', PStr ''Paris''), (PStr ''unit'', PStr ''CELSIUS'')]"

definition paris_report :: pyval where
  \<comment> \<open>what the handler makes of \<open>sample_report\<close> in Celsius\<close>
  "paris_report =
     PDict
       [(PStr ''location'', PStr ''Paris''),
        (PStr ''summary'', PStr ''Sunny''),
        (PStr ''temperature'', PStr (''12'' @ degree @ ''C'')),
        (PStr ''feels_like'', PStr (''11'' @ degree @ ''C'')),
        (PStr ''humidity'', PStr ''71%''),
        (PStr ''source'', PStr ''wttr.in'')]"

definition string_valued :: "(pyval \<times> pyval) list \<Rightarrow> bool" where
  \<comment> \<open>every value of the mapping is a string, as the tool declarations require\<close>
  "string_valued arguments =
     list_all (\<lambda>kv. case snd kv of PStr s \<Rightarrow> True | _ \<Rightarrow> False) arguments"

definition parser_contained :: "'f env \<Rightarrow> bool" where
  \<comment> \<open>the parser rejects an input with \<open>ValueError\<close> or \<open>TypeError\<close> only\<close>
  "parser_contained env =
     (\<forall>v exc. date_parse env v = Inl exc \<longrightarrow> exc_kind_of exc = ValueError \<or> exc_kind_of exc = TypeError)"

definition tool_call :: "string \<Rightarrow> pyval \<Rightarrow> pyval" where
  \<comment> \<open>\<^verbatim>\<open>{"name": name, "args": args}\<close>\<close>
  "tool_call name args = PDict [(PStr ''name'', PStr name), (PStr ''args'', args)]"

fun after_rounds :: "nat \<Rightarrow> 'f env \<Rightarrow> session \<Rightarrow> session option" where
  \<comment> \<open>the session after \<open>n\<close> rounds that each requested tools and completed\<close>
  "after_rounds 0 env s = Some s"
| "after_rounds (Suc n) env s =
     (case model_round env s of
        (Continue, s') \<Rightarrow> after_rounds n env s'
      | _ \<Rightarrow> None)"

definition round_outcome :: "round_result \<Rightarrow> pyexc + (pyval \<times> pyval) list" where
  \<comment> \<open>what the loop returns or raises after a round that ends it\<close>
  "round_outcome r = (case r of Finished m \<Rightarrow> Inr m | Raised exc \<Rightarrow> Inl exc | Continue \<Rightarrow> Inr [])"




definition sample_final_session :: session where
  \<comment> \<open>the session after \<^verbatim>\<open>chat("hi")\<close> with the sample backend: one tool round, then the answer\<close>
  "sample_final_session =
     \<lparr>history =
        [build_user_message ''hi'' None ''image/png'',
         PDict [(PStr ''role'', PStr ''model''),
                (PStr ''parts'',
                 PList [PDict [(PStr ''function_call'',
                                tool_call ''create_reminder'' (PDict pay_rent_args))]])],
         tool_message (PStr ''create_reminder'')
           (PDict [(PStr ''status'', PStr ''stored''),
                   (PStr ''reminder'', PDict pay_rent_args),
                   (PStr ''total'', PInt 1)]),
         PDict [(PStr ''role'', PStr ''model''),
                (PStr ''parts'', PList [PDict [(PStr ''text'', PStr ''Done.'')]])]],
      state = \<lparr>reminders = [PDict pay_rent_args], calendar_seed = []\<rparr>\<rparr>"

section \<open>Properties\<close>

subsection \<open>Reminders\<close>

lemma isoformat_march_first: "isoformat march_first = ''2024-03-01T09:00:00''"
  by code_simp

lemma strip_pay_rent: "strip ''Pay rent'' = ''Pay rent''"
  by code_simp

lemma create_reminder_valid:
  assumes "valid_reminder env arguments"
  shows "\<exists>s d. get_or arguments ''summary'' (PStr '''') = PStr s
           \<and> date_parse env (get_or arguments ''due_time'' PNone) = Inr d
           \<and> tool_create_reminder env st arguments =
               (Inr (PDict [(PStr ''status'', PStr ''stored''),
                            (PStr ''reminder'', PDict [(PStr ''summary'', PStr (strip s)),
                                                       (PStr ''due_time'', PStr (isoformat d))]),
                            (PStr ''total'', PInt (int (length (reminders st)) + 1))]),
                st\<lparr>reminders := reminders st @
                     [PDict [(PStr ''summary'', PStr (strip s)),
                             (PStr ''due_time'', PStr (isoformat d))]]\<rparr>)"
  using assms
  by (auto simp: valid_reminder_def tool_create_reminder_def py_strip_def Let_def
           split: pyval.splits sum.splits)

lemma create_reminders_totals:
  assumes "\<forall>a \<in> set calls. valid_reminder env a"
  shows "map (\<lambda>r. result_field r ''total'') (fst (create_reminders env st calls))
           = map (\<lambda>i. Some (PInt (int (length (reminders st)) + 1 + int i))) [0..<length calls]
         \<and> length (reminders (snd (create_reminders env st calls)))
           = length (reminders st) + length calls"
  using assms
proof (induction calls arbitrary: st)
  case Nil
  then show ?case by simp
next
  case (Cons a calls)
  from Cons.prems have "valid_reminder env a" by simp
  from create_reminder_valid[OF this, of st] obtain r st' where
    step: "tool_create_reminder env st a = (Inr r, st')"
    and tot: "result_field (Inr r) ''total'' = Some (PInt (int (length (reminders st)) + 1))"
    and len: "length (reminders st') = length (reminders st) + 1"
    by (auto simp: result_field_def dict_get_def)
  from Cons.prems have rest: "\<forall>a \<in> set calls. valid_reminder env a" by simp
  note ih = Cons.IH[OF rest, of st']
  have upt: "[0..<Suc (length calls)] = 0 # map Suc [0..<length calls]"
    by (simp add: upt_conv_Cons map_Suc_upt del: upt_Suc)
  show ?case
    using ih step tot len
    by (auto simp add: upt comp_def algebra_simps split: prod.splits simp del: upt_Suc)
qed

lemma create_reminder_grows:
  "\<exists>new. reminders (snd (tool_create_reminder env st arguments)) = reminders st @ new"
  by (auto simp: tool_create_reminder_def Let_def split: sum.splits)

lemma create_reminder_seed:
  "calendar_seed (snd (tool_create_reminder env st arguments)) = calendar_seed st"
  by (auto simp: tool_create_reminder_def Let_def split: sum.splits)

lemma list_calendar_agenda_state:
  "snd (tool_list_calendar_agenda env st arguments) = st"
  by (auto simp: tool_list_calendar_agenda_def Let_def split: sum.splits)

lemma call_handler_grows:
  "\<exists>new. reminders (snd (call_handler env st name arguments)) = reminders st @ new"
  using create_reminder_grows[of env st arguments]
  by (auto simp: call_handler_def list_calendar_agenda_state)

lemma dispatch_grows:
  "\<exists>new. reminders (snd (dispatch_tool_call env st function_call)) = reminders st @ new"
  using call_handler_grows
  by (auto simp: dispatch_tool_call_def split: sum.splits)

lemma dispatch_all_grows:
  "\<exists>new. reminders (state (snd (dispatch_all env s calls))) = reminders (state s) @ new"
proof (induction calls arbitrary: s)
  case Nil
  then show ?case by simp
next
  case (Cons fc calls)
  obtain r st' where d: "dispatch_tool_call env (state s) fc = (r, st')"
    by (cases "dispatch_tool_call env (state s) fc")
  from dispatch_grows[of env "state s" fc] d obtain new where
    n: "reminders st' = reminders (state s) @ new" by auto
  show ?case
  proof (cases r)
    case (Inl e)
    with d n show ?thesis by simp
  next
    case (Inr resp)
    show ?thesis
    proof (cases "py_item fc ''name''")
      case (Inl e)
      with d n Inr show ?thesis by simp
    next
      case (Inr name)
      from Cons.IH[of "s\<lparr>history := history s @ [tool_message name resp], state := st'\<rparr>"]
      obtain new' where
        "reminders (state (snd (dispatch_all env
            (s\<lparr>history := history s @ [tool_message name resp], state := st'\<rparr>) calls)))
          = reminders st' @ new'" by auto
      with d n \<open>r = Inr resp\<close> Inr show ?thesis by simp
    qed
  qed
qed

lemma model_round_grows:
  "\<exists>new. reminders (state (snd (model_round env s))) = reminders (state s) @ new"
proof -
  have step: "\<exists>new. reminders (state s2) = reminders (state s) @ new"
    if "dispatch_all env (s\<lparr>history := h\<rparr>) calls = (e, s2)" for h calls e s2
    using dispatch_all_grows[of env "s\<lparr>history := h\<rparr>" calls] that by simp
  show ?thesis
    by (auto simp: model_round_def Let_def dest: step
             split: sum.splits list.splits prod.splits option.splits)
qed

lemma loop_grows:
  assumes "generate_until_complete env s = Some y"
  shows "\<exists>new. reminders (state (snd y)) = reminders (state s) @ new"
proof (rule generate_until_complete.raw_induct
    [where P = "\<lambda>env s y. \<exists>new. reminders (state (snd y)) = reminders (state s) @ new",
      OF _ assms])
  fix f and env :: "'a env" and s y
  assume IH: "\<And>env s y. f env s = Some y
                \<Longrightarrow> \<exists>new. reminders (state (snd y)) = reminders (state s) @ new"
    and body: "(case model_round env s of
                  (Finished model_message, s') \<Rightarrow> Some (Inr model_message, s')
                | (Continue, s') \<Rightarrow> f env s'
                | (Raised exc, s') \<Rightarrow> Some (Inl exc, s')) = Some y"
  obtain rr s1 where mr: "model_round env s = (rr, s1)" by (cases "model_round env s")
  from model_round_grows[of env s] mr obtain new where
    n: "reminders (state s1) = reminders (state s) @ new" by auto
  show "\<exists>new. reminders (state (snd y)) = reminders (state s) @ new"
  proof (cases rr)
    case (Finished m)
    with body mr n show ?thesis by auto
  next
    case Continue
    with body mr have "f env s1 = Some y" by simp
    from IH[OF this] n show ?thesis by auto
  next
    case (Raised e)
    with body mr n show ?thesis by auto
  qed
qed

lemma chat_grows:
  assumes "chat env s prompt image_bytes mime_type = Some y"
  shows "\<exists>new. reminders (state (snd y)) = reminders (state s) @ new"
proof (cases "prompt = [] \<and> image_bytes = None")
  case True
  with assms show ?thesis by (auto simp: chat_def)
next
  case False
  let ?s1 = "s\<lparr>history := history s @ [build_user_message prompt image_bytes mime_type]\<rparr>"
  from False assms obtain z where z: "generate_until_complete env ?s1 = Some z" and "snd z = snd y"
    by (auto simp: chat_def Let_def split: option.splits sum.splits prod.splits)
  with loop_grows[OF z] show ?thesis by simp
qed

text \<open>
  C5. Starting from an empty reminders list, \<open>N\<close> calls of \<^verbatim>\<open>create_reminder\<close> with valid
  arguments (a summary that is not blank, a due time the parser accepts) return the totals
  1 to \<open>N\<close> in order and leave \<open>N\<close> reminders. The list only grows: a tool dispatch and a
  whole \<^verbatim>\<open>chat\<close> call leave the old list as a prefix of the new one, and \<^verbatim>\<open>reset\<close> does
  not touch it. The first call \<^verbatim>\<open>{summary: "Pay rent", due_time: "2024-03-01T09:00:00"}\<close>
  returns \<^verbatim>\<open>status: stored\<close>, the reminder as given and \<^verbatim>\<open>total: 1\<close>, when the
  parser reads the due time as 1 March 2024, 09:00.
\<close>

theorem reminders_count_and_grow:
  "(reminders st = [] \<and> (\<forall>a \<in> set calls. valid_reminder env a) \<longrightarrow>
      map (\<lambda>r. result_field r ''total'') (fst (create_reminders env st calls))
        = map (\<lambda>i. Some (PInt (int i))) [1..<Suc (length calls)]
      \<and> length (reminders (snd (create_reminders env st calls))) = length calls)
   \<and> (\<exists>new. reminders (snd (dispatch_tool_call env st0 function_call)) = reminders st0 @ new)
   \<and> reminders (state (reset s)) = reminders (state s)
   \<and> (chat env s prompt image_bytes mime_type = Some y \<longrightarrow>
        (\<exists>new. reminders (state (snd y)) = reminders (state s) @ new))
   \<and> (reminders st = [] \<and> date_parse env (PStr ''2024-03-01T09:00:00'') = Inr march_first \<longrightarrow>
        fst (tool_create_reminder env st
               [(PStr ''summary'', PStr ''Pay rent''),
                (PStr ''due_time'', PStr ''2024-03-01T09:00:00'')])
          = Inr (PDict [(PStr ''status'', PStr ''stored''),
                        (PStr ''reminder'',
                         PDict [(PStr ''summary'', PStr ''Pay rent''),
                                (PStr ''due_time'', PStr ''2024-03-01T09:00:00'')]),
                        (PStr ''total'', PInt 1)]))"
proof -
  have a: "map (\<lambda>r. result_field r ''total'') (fst (create_reminders env st calls))
        = map (\<lambda>i. Some (PInt (int i))) [1..<Suc (length calls)]
      \<and> length (reminders (snd (create_reminders env st calls))) = length calls"
    if "reminders st = []" and "\<forall>a \<in> set calls. valid_reminder env a"
  proof -
    have "map (\<lambda>i. Some (PInt (int i))) [1..<Suc (length calls)]
            = map (\<lambda>i. Some (PInt (1 + int i))) [0..<length calls]"
    proof -
      have "[1..<Suc (length calls)] = map Suc [0..<length calls]"
        by (simp add: map_Suc_upt del: upt_Suc)
      then show ?thesis
        by (simp only: map_map comp_def of_nat_Suc)
    qed
    with create_reminders_totals[OF that(2), of st] that(1) show ?thesis by simp
  qed
  have e: "fst (tool_create_reminder env st
               [(PStr ''summary'', PStr ''Pay rent''),
                (PStr ''due_time'', PStr ''2024-03-01T09:00:00'')])
          = Inr (PDict [(PStr ''status'', PStr ''stored''),
                        (PStr ''reminder'',
                         PDict [(PStr ''summary'', PStr ''Pay rent''),
                                (PStr ''due_time'', PStr ''2024-03-01T09:00:00'')]),
                        (PStr ''total'', PInt 1)])"
    if "reminders st = []" and "date_parse env (PStr ''2024-03-01T09:00:00'') = Inr march_first"
    using that
    by (simp add: tool_create_reminder_def get_or_def dict_get_def py_strip_def
          strip_pay_rent isoformat_march_first Let_def)
  show ?thesis
    using a e dispatch_grows[of env st0 function_call] chat_grows[of env s prompt image_bytes mime_type y]
    by (simp add: reset_def)
qed

theorem reminders_count_and_grow_witness:
  "reminders empty_state = []
   \<and> valid_reminder sample_env pay_rent_args \<and> valid_reminder sample_env call_sam_args
   \<and> map (\<lambda>r. result_field r ''total'')
         (fst (create_reminders sample_env empty_state [pay_rent_args, call_sam_args]))
       = [Some (PInt 1), Some (PInt 2)]
   \<and> length (reminders (snd (create_reminders sample_env empty_state [pay_rent_args, call_sam_args]))) = 2
   \<and> date_parse sample_env (PStr ''2024-03-01T09:00:00'') = Inr march_first
   \<and> fst (tool_create_reminder sample_env empty_state
               [(PStr ''summary'', PStr ''Pay rent''),
                (PStr ''due_time'', PStr ''2024-03-01T09:00:00'')])
          = Inr (PDict [(PStr ''status'', PStr ''stored''),
                        (PStr ''reminder'',
                         PDict [(PStr ''summary'', PStr ''Pay rent''),
                                (PStr ''due_time'', PStr ''2024-03-01T09:00:00'')]),
                        (PStr ''total'', PInt 1)])"
proof -
  have h1: "reminders empty_state = []" by (simp add: empty_state_def)
  have h2: "valid_reminder sample_env pay_rent_args" by code_simp
  have h3: "valid_reminder sample_env call_sam_args" by code_simp
  have h4: "date_parse sample_env (PStr ''2024-03-01T09:00:00'') = Inr march_first" by code_simp
  have h5: "[1..<Suc (length [pay_rent_args, call_sam_args])] = [1, 2]" by code_simp
  from h2 h3 have h6: "\<forall>a \<in> set [pay_rent_args, call_sam_args]. valid_reminder sample_env a" by simp
  show ?thesis
    using reminders_count_and_grow[of empty_state "[pay_rent_args, call_sam_args]" sample_env]
      h1 h2 h3 h4 h6
    by (simp only: h5 list.map of_nat_numeral of_nat_1 list.size) simp
qed

subsection \<open>Reset\<close>

text \<open>
  C9. \<^verbatim>\<open>reset\<close> empties the transcript and leaves the assistant state, that is the
  reminders list and the calendar index, as it was.
\<close>

theorem reset_clears_history_only:
  "history (reset s) = []
   \<and> state (reset s) = state s
   \<and> reminders (state (reset s)) = reminders (state s)
   \<and> calendar_seed (state (reset s)) = calendar_seed (state s)"
  by (simp add: reset_def)

subsection \<open>Calendar\<close>




subsection \<open>Normalised due times\<close>

lemma strip_call_sam: "strip '' Call Sam '' = ''Call Sam''"
  by code_simp

text \<open>
  C10. \<^verbatim>\<open>create_reminder\<close> stores and echoes the parsed timestamp in ISO format, not the
  argument: for valid arguments whose due time the parser reads as \<open>d\<close>, the reminder
  appended to the list and the reminder of the result both carry \<open>isoformat d\<close>. So the
  stored string is the argument exactly when the argument is the ISO form of its own
  parse; \<^verbatim>\<open>"2024-03-01T09:00:00"\<close> is stored as it is, and \<^verbatim>\<open>"March 1 2024 9am"\<close> is stored
  as \<^verbatim>\<open>"2024-03-01T09:00:00"\<close>, when the parser reads both as 1 March 2024, 09:00.
\<close>

theorem create_reminder_normalises_due_time:
  "(valid_reminder env arguments
      \<and> get_or arguments ''summary'' (PStr '''') = PStr summary
      \<and> get_or arguments ''due_time'' PNone = raw
      \<and> date_parse env raw = Inr d
    \<longrightarrow> reminders (snd (tool_create_reminder env st arguments))
          = reminders st @ [PDict [(PStr ''summary'', PStr (strip summary)),
                                   (PStr ''due_time'', PStr (isoformat d))]]
        \<and> result_field (fst (tool_create_reminder env st arguments)) ''reminder''
          = Some (PDict [(PStr ''summary'', PStr (strip summary)),
                         (PStr ''due_time'', PStr (isoformat d))])
        \<and> last_due_time (snd (tool_create_reminder env st arguments)) = Some (PStr (isoformat d))
        \<and> (last_due_time (snd (tool_create_reminder env st arguments)) = Some raw
             \<longleftrightarrow> raw = PStr (isoformat d)))
   \<and> (date_parse env (PStr ''2024-03-01T09:00:00'') = Inr march_first
        \<longrightarrow> result_field (fst (tool_create_reminder env st pay_rent_args)) ''reminder''
             = Some (PDict [(PStr ''summary'', PStr ''Pay rent''),
                            (PStr ''due_time'', PStr ''2024-03-01T09:00:00'')]))
   \<and> (date_parse env (PStr ''March 1 2024 9am'') = Inr march_first
        \<longrightarrow> result_field (fst (tool_create_reminder env st call_sam_args)) ''reminder''
             = Some (PDict [(PStr ''summary'', PStr ''Call Sam''),
                            (PStr ''due_time'', PStr ''2024-03-01T09:00:00'')])
            \<and> ''2024-03-01T09:00:00'' \<noteq> ''March 1 2024 9am'')"
proof -
  have a: "reminders (snd (tool_create_reminder env st arguments))
          = reminders st @ [PDict [(PStr ''summary'', PStr (strip summary)),
                                   (PStr ''due_time'', PStr (isoformat d))]]
        \<and> result_field (fst (tool_create_reminder env st arguments)) ''reminder''
          = Some (PDict [(PStr ''summary'', PStr (strip summary)),
                         (PStr ''due_time'', PStr (isoformat d))])"
    if "valid_reminder env arguments" "get_or arguments ''summary'' (PStr []) = PStr summary"
      "date_parse env (get_or arguments ''due_time'' PNone) = Inr d"
    for arguments summary d
    using create_reminder_valid[OF that(1), of st] that(2,3)
    by (auto simp: result_field_def dict_get_def)
  have v1: "valid_reminder env pay_rent_args"
    if "date_parse env (PStr ''2024-03-01T09:00:00'') = Inr march_first"
    using that
    by (simp add: valid_reminder_def pay_rent_args_def get_or_def dict_get_def strip_pay_rent)
  have v2: "valid_reminder env call_sam_args"
    if "date_parse env (PStr ''March 1 2024 9am'') = Inr march_first"
    using that
    by (simp add: valid_reminder_def call_sam_args_def get_or_def dict_get_def strip_call_sam)
  have b: "result_field (fst (tool_create_reminder env st pay_rent_args)) ''reminder''
             = Some (PDict [(PStr ''summary'', PStr ''Pay rent''),
                            (PStr ''due_time'', PStr ''2024-03-01T09:00:00'')])"
    if "date_parse env (PStr ''2024-03-01T09:00:00'') = Inr march_first"
    using a[OF v1[OF that], of "''Pay rent''" march_first] that
    by (simp add: pay_rent_args_def get_or_def dict_get_def strip_pay_rent isoformat_march_first)
  have c: "result_field (fst (tool_create_reminder env st call_sam_args)) ''reminder''
             = Some (PDict [(PStr ''summary'', PStr ''Call Sam''),
                            (PStr ''due_time'', PStr ''2024-03-01T09:00:00'')])"
    if "date_parse env (PStr ''March 1 2024 9am'') = Inr march_first"
    using a[OF v2[OF that], of "'' Call Sam ''" march_first] that
    by (simp add: call_sam_args_def get_or_def dict_get_def strip_call_sam isoformat_march_first)
  have l: "last_due_time (snd (tool_create_reminder env st arguments)) = Some (PStr (isoformat d))"
    if "valid_reminder env arguments" "get_or arguments ''summary'' (PStr []) = PStr summary"
      "date_parse env (get_or arguments ''due_time'' PNone) = Inr d"
    using a[OF that] by (simp add: last_due_time_def dict_get_def)
  show ?thesis
    using a[of arguments summary d] l b c by auto
qed

theorem create_reminder_normalises_due_time_witness:
  "valid_reminder sample_env call_sam_args
   \<and> get_or call_sam_args ''summary'' (PStr []) = PStr '' Call Sam ''
   \<and> get_or call_sam_args ''due_time'' PNone = PStr ''March 1 2024 9am''
   \<and> date_parse sample_env (PStr ''March 1 2024 9am'') = Inr march_first
   \<and> date_parse sample_env (PStr ''2024-03-01T09:00:00'') = Inr march_first
   \<and> last_due_time (snd (tool_create_reminder sample_env empty_state call_sam_args))
       = Some (PStr ''2024-03-01T09:00:00'')
   \<and> last_due_time (snd (tool_create_reminder sample_env empty_state call_sam_args))
       \<noteq> Some (PStr ''March 1 2024 9am'')
   \<and> result_field (fst (tool_create_reminder sample_env empty_state pay_rent_args)) ''reminder''
       = Some (PDict [(PStr ''summary'', PStr ''Pay rent''),
                      (PStr ''due_time'', PStr ''2024-03-01T09:00:00'')])"
proof -
  have h1: "valid_reminder sample_env call_sam_args" by code_simp
  have h2: "get_or call_sam_args ''summary'' (PStr []) = PStr '' Call Sam ''" by code_simp
  have h3: "get_or call_sam_args ''due_time'' PNone = PStr ''March 1 2024 9am''" by code_simp
  have h4: "date_parse sample_env (PStr ''March 1 2024 9am'') = Inr march_first" by code_simp
  have h5: "date_parse sample_env (PStr ''2024-03-01T09:00:00'') = Inr march_first" by code_simp
  show ?thesis
    using create_reminder_normalises_due_time[of sample_env call_sam_args "'' Call Sam ''"
        "PStr ''March 1 2024 9am''" march_first empty_state] h1 h2 h3 h4 h5
    by (simp add: isoformat_march_first)
qed

subsection \<open>Email drafts\<close>




lemma draft_email_strings:
  assumes "get_or arguments ''recipient'' (PStr ''there'') = PStr r"
    and "get_or arguments ''subject'' (PStr ''Quick update'') = PStr sj"
    and "get_or arguments ''outline'' (PStr []) = PStr ol"
  shows "tool_draft_email_outline arguments =
           Inr (PDict
             [(PStr ''subject'', PStr (if strip sj = [] then ''Quick update'' else strip sj)),
              (PStr ''body'',
               PStr (join newline
                 (email_body (if strip r = [] then ''there'' else strip r)
                    (if strip sj = [] then ''Quick update'' else strip sj)
                    (outline_bullets (strip ol)))))])"
  using assms
  by (simp add: tool_draft_email_outline_def bind_exc_def py_strip_def or_default_def Let_def)






subsection \<open>Weather\<close>

lemma bind_exc_Inr:
  "bind_exc m f = Inr r \<longleftrightarrow> (\<exists>x. m = Inr x \<and> f x = Inr r)"
  by (cases m) (simp_all add: bind_exc_def)

lemma lower_fahrenheit: "lower ''fahrenheit'' = ''fahrenheit''"
  by code_simp

lemma resolve_unit_default:
  assumes "\<not> truthy (get_or arguments ''unit'' PNone)"
  shows "resolve_unit arguments = Inr ''fahrenheit''"
  using assms by (simp add: resolve_unit_def Let_def py_lower_def bind_exc_def lower_fahrenheit)

lemma resolve_unit_string:
  assumes "get_or arguments ''unit'' PNone = PStr u" and "u \<noteq> []"
  shows "resolve_unit arguments = Inr (if lower u = ''celsius'' then ''celsius'' else ''fahrenheit'')"
  using assms by (auto simp: resolve_unit_def Let_def py_lower_def bind_exc_def)

lemma weather_lookup_success:
  assumes "weather_lookup env location unit query = Inr r"
  shows "\<exists>temp feels_like.
           result_field (Inr r) ''temperature''
             = Some (PStr (format_0f env temp @ degree @ (if unit = ''fahrenheit'' then ''F'' else ''C'')))
         \<and> result_field (Inr r) ''feels_like''
             = Some (PStr (format_0f env feels_like @ degree
                            @ (if unit = ''fahrenheit'' then ''F'' else ''C'')))"
proof -
  from assms obtain temp_c temp_f feels_c feels_f area_name summary humidity where
    "r = PDict
            [(PStr ''location'', area_name),
             (PStr ''summary'', summary),
             (PStr ''temperature'',
              PStr (format_0f env (if unit = ''fahrenheit'' then temp_f else temp_c)
                    @ (if unit = ''fahrenheit'' then degree @ ''F'' else degree @ ''C''))),
             (PStr ''feels_like'',
              PStr (format_0f env (if unit = ''fahrenheit'' then feels_f else feels_c)
                    @ (if unit = ''fahrenheit'' then degree @ ''F'' else degree @ ''C''))),
             (PStr ''humidity'', PStr (py_str humidity @ ''%'')),
             (PStr ''source'', PStr ''wttr.in'')]"
    unfolding weather_lookup_def bind_exc_Inr Let_def by blast
  then show ?thesis
    by (auto simp: result_field_def dict_get_def)
qed

lemma weather_success:
  assumes "tool_get_weather_forecast env arguments = Inr r"
    and "result_field (Inr r) ''error'' = None"
  shows "\<exists>unit temp feels_like.
           resolve_unit arguments = Inr unit
         \<and> result_field (Inr r) ''temperature''
             = Some (PStr (format_0f env temp @ degree @ (if unit = ''fahrenheit'' then ''F'' else ''C'')))
         \<and> result_field (Inr r) ''feels_like''
             = Some (PStr (format_0f env feels_like @ degree
                            @ (if unit = ''fahrenheit'' then ''F'' else ''C'')))"
proof (cases "py_strip (get_or arguments ''location'' (PStr []))")
  case (Inl exc)
  with assms(1) show ?thesis
    by (simp add: tool_get_weather_forecast_def bind_exc_def)
next
  case location: (Inr location)
  show ?thesis
  proof (cases "resolve_unit arguments")
    case (Inl exc)
    with assms(1) location show ?thesis
      by (simp add: tool_get_weather_forecast_def bind_exc_def)
  next
    case unit: (Inr unit)
    from assms location unit
    have "weather_lookup env location unit (replace_space location) = Inr r"
      by (auto simp: tool_get_weather_forecast_def bind_exc_def Let_def result_field_def
            dict_get_def error_result_def split: if_splits sum.splits)
    from weather_lookup_success[OF this] unit show ?thesis by blast
  qed
qed

lemma paris_forecast: "tool_get_weather_forecast sample_env paris_args = Inr paris_report"
  by code_simp

lemma paris_unit: "resolve_unit paris_args = Inr ''celsius''"
  by code_simp

text \<open>
  C4, as stated, fails: a unit that is not in the set is not always coerced to
  \<^verbatim>\<open>fahrenheit\<close>. The handler lower-cases the unit first, so \<^verbatim>\<open>"CELSIUS"\<close>, which is not
  one of the two set members, resolves to \<^verbatim>\<open>celsius\<close> and the report comes in Celsius.
\<close>

theorem weather_unit_counterexample:
  "''CELSIUS'' \<notin> {''fahrenheit'', ''celsius''}
   \<and> get_or paris_args ''unit'' PNone = PStr ''CELSIUS''
   \<and> resolve_unit paris_args = Inr ''celsius''
   \<and> result_field (tool_get_weather_forecast sample_env paris_args) ''temperature''
       = Some (PStr (''12'' @ degree @ ''C''))"
  by code_simp

text \<open>
  C4, amended. The unit is \<^verbatim>\<open>fahrenheit\<close> when the argument is absent or falsy; a unit that
  is a non-empty string is lower-cased and is \<^verbatim>\<open>celsius\<close> when the lower-cased string is
  \<^verbatim>\<open>celsius\<close> and \<^verbatim>\<open>fahrenheit\<close> otherwise. On success (a result without \<^verbatim>\<open>error\<close>) the
  \<^verbatim>\<open>temperature\<close> and \<^verbatim>\<open>feels_like\<close> fields are a float in the format \<^verbatim>\<open>.0f\<close> followed by
  the degree sign and \<^verbatim>\<open>F\<close> or \<^verbatim>\<open>C\<close>, chosen by the resolved unit.
\<close>

theorem weather_unit_and_rendering:
  "(\<not> truthy (get_or arguments ''unit'' PNone) \<longrightarrow> resolve_unit arguments = Inr ''fahrenheit'')
   \<and> (get_or arguments ''unit'' PNone = PStr u \<and> u \<noteq> []
        \<longrightarrow> resolve_unit arguments
              = Inr (if lower u = ''celsius'' then ''celsius'' else ''fahrenheit''))
   \<and> (tool_get_weather_forecast env arguments = Inr r \<and> result_field (Inr r) ''error'' = None
        \<longrightarrow> (\<exists>unit temp feels_like.
               resolve_unit arguments = Inr unit
             \<and> result_field (Inr r) ''temperature''
                 = Some (PStr (format_0f env temp @ degree
                                @ (if unit = ''fahrenheit'' then ''F'' else ''C'')))
             \<and> result_field (Inr r) ''feels_like''
                 = Some (PStr (format_0f env feels_like @ degree
                                @ (if unit = ''fahrenheit'' then ''F'' else ''C'')))))"
  using resolve_unit_default[of arguments] resolve_unit_string[of arguments u]
    weather_success[of env arguments r]
  by blast

theorem weather_unit_and_rendering_witness:
  "\<not> truthy (get_or [(PStr ''location'', PStr ''Paris'')] ''unit'' PNone)
   \<and> resolve_unit [(PStr ''location'', PStr ''Paris'')] = Inr ''fahrenheit''
   \<and> get_or paris_args ''unit'' PNone = PStr ''CELSIUS''
   \<and> ''CELSIUS'' \<noteq> []
   \<and> resolve_unit paris_args
       = Inr (if lower ''CELSIUS'' = ''celsius'' then ''celsius'' else ''fahrenheit'')
   \<and> tool_get_weather_forecast sample_env paris_args = Inr paris_report
   \<and> result_field (Inr paris_report) ''error'' = None
   \<and> (\<exists>unit temp feels_like.
         resolve_unit paris_args = Inr unit
       \<and> result_field (Inr paris_report) ''temperature''
           = Some (PStr (format_0f sample_env temp @ degree
                          @ (if unit = ''fahrenheit'' then ''F'' else ''C'')))
       \<and> result_field (Inr paris_report) ''feels_like''
           = Some (PStr (format_0f sample_env feels_like @ degree
                          @ (if unit = ''fahrenheit'' then ''F'' else ''C''))))"
proof -
  have h1: "\<not> truthy (get_or [(PStr ''location'', PStr ''Paris'')] ''unit'' PNone)" by code_simp
  have h2: "get_or paris_args ''unit'' PNone = PStr ''CELSIUS''" by code_simp
  have h3: "''CELSIUS'' \<noteq> []" by simp
  have h4: "result_field (Inr paris_report) ''error'' = None" by code_simp
  note absent = weather_unit_and_rendering[where arguments = "[(PStr ''location'', PStr ''Paris'')]"
      and u = "''CELSIUS''" and env = sample_env and r = paris_report]
  note given = weather_unit_and_rendering[where arguments = paris_args
      and u = "''CELSIUS''" and env = sample_env and r = paris_report]
  from absent h1 have c1: "resolve_unit [(PStr ''location'', PStr ''Paris'')] = Inr ''fahrenheit''"
    by blast
  from given h2 h3 have c2: "resolve_unit paris_args
       = Inr (if lower ''CELSIUS'' = ''celsius'' then ''celsius'' else ''fahrenheit'')"
    by blast
  from given paris_forecast h4 have c3: "\<exists>unit temp feels_like.
         resolve_unit paris_args = Inr unit
       \<and> result_field (Inr paris_report) ''temperature''
           = Some (PStr (format_0f sample_env temp @ degree
                          @ (if unit = ''fahrenheit'' then ''F'' else ''C'')))
       \<and> result_field (Inr paris_report) ''feels_like''
           = Some (PStr (format_0f sample_env feels_like @ degree
                          @ (if unit = ''fahrenheit'' then ''F'' else ''C'')))"
    by blast
  from h1 c1 h2 h3 c2 paris_forecast h4 c3 show ?thesis by blast
qed

subsection \<open>Dispatch\<close>

lemma string_valued_get:
  assumes "string_valued arguments"
  shows "\<exists>s. get_or arguments k (PStr d) = PStr s"
    and "get_or arguments k PNone = PNone \<or> (\<exists>s. get_or arguments k PNone = PStr s)"
  using assms
  by (induction arguments)
     (auto simp: string_valued_def get_or_def dict_get_def split: pyval.splits)

lemma weather_contained:
  assumes "string_valued arguments"
  shows "\<exists>r. tool_get_weather_forecast env arguments = Inr r"
proof -
  from string_valued_get(1)[OF assms] obtain l where
    l: "get_or arguments ''location'' (PStr []) = PStr l" by blast
  from string_valued_get(2)[OF assms, of "''unit''"]
  have "\<exists>u. resolve_unit arguments = Inr u"
    by (auto simp: resolve_unit_def Let_def py_lower_def bind_exc_def)
  then obtain u where "resolve_unit arguments = Inr u" ..
  with l show ?thesis
    by (simp add: tool_get_weather_forecast_def py_strip_def bind_exc_def Let_def
          split: sum.splits)
qed

lemma search_contained:
  assumes "string_valued arguments"
  shows "\<exists>r. tool_search_public_info env arguments = Inr r"
proof -
  from string_valued_get(1)[OF assms] obtain t where
    "get_or arguments ''topic'' (PStr []) = PStr t" by blast
  then show ?thesis
    by (simp add: tool_search_public_info_def py_strip_def bind_exc_def Let_def
          split: sum.splits)
qed

lemma email_contained:
  assumes "string_valued arguments"
  shows "\<exists>r. tool_draft_email_outline arguments = Inr r"
proof -
  from string_valued_get(1)[OF assms] obtain r sj ol where
    "get_or arguments ''recipient'' (PStr ''there'') = PStr r"
    "get_or arguments ''subject'' (PStr ''Quick update'') = PStr sj"
    "get_or arguments ''outline'' (PStr []) = PStr ol" by blast
  from draft_email_strings[OF this] show ?thesis by blast
qed

lemma calendar_contained:
  assumes "parser_contained env"
  shows "\<exists>r. fst (tool_list_calendar_agenda env st arguments) = Inr r"
  using assms
  by (auto simp: tool_list_calendar_agenda_def parser_contained_def Let_def split: sum.splits)

lemma reminder_contained:
  assumes "string_valued arguments" and "parser_contained env"
  shows "\<exists>r. fst (tool_create_reminder env st arguments) = Inr r"
proof -
  from string_valued_get(1)[OF assms(1)] obtain s where
    "get_or arguments ''summary'' (PStr []) = PStr s" by blast
  with assms(2) show ?thesis
    by (auto simp: tool_create_reminder_def parser_contained_def py_strip_def Let_def
          split: sum.splits)
qed

lemma call_handler_contained:
  assumes "string_valued arguments" and "parser_contained env" and "name \<in> set TOOL_NAMES"
  shows "\<exists>r. fst (call_handler env st name arguments) = Inr r"
  using assms weather_contained[OF assms(1), of env] search_contained[OF assms(1), of env]
    email_contained[OF assms(1)] calendar_contained[OF assms(2), of st arguments]
    reminder_contained[OF assms(1,2), of st]
  by (auto simp: call_handler_def TOOL_NAMES_def)

lemma dispatch_unknown:
  assumes "py_get function_call ''name'' PNone = Inr name"
    and "hashable name" and "name \<notin> PStr ` set TOOL_NAMES"
  shows "dispatch_tool_call env st function_call =
           (Inr (error_result (''Tool '' @ apos @ py_str name @ apos @ '' is not available.'')), st)"
  using assms by (simp add: dispatch_tool_call_def)

lemma dispatch_registered:
  assumes "py_get function_call ''name'' PNone = Inr (PStr name)"
    and "name \<in> set TOOL_NAMES"
    and "py_get function_call ''args'' (PDict []) = Inr a"
  shows "dispatch_tool_call env st function_call =
           (case py_dict a of
              Inl exc \<Rightarrow> (Inl exc, st)
            | Inr arguments \<Rightarrow> call_handler env st name arguments)"
  using assms by (simp add: dispatch_tool_call_def bind_exc_def py_str_def split: sum.splits)

lemma sample_parser_contained: "parser_contained sample_env"
  by (auto simp: parser_contained_def sample_env_def sample_parse_def
        split: pyval.splits if_splits)

text \<open>
  C1, as stated, fails: the dispatcher has no handler for exceptions. For the registered tool
  \<^verbatim>\<open>create_reminder\<close>, an argument payload that is no mapping (\<^verbatim>\<open>5\<close>) makes
  \<^verbatim>\<open>dict(arguments)\<close> raise \<open>TypeError\<close>, and a summary that is no string makes the handler
  raise \<open>AttributeError\<close>; either exception leaves \<^verbatim>\<open>_dispatch_tool_call\<close>, no result with
  an \<^verbatim>\<open>error\<close> key is returned.
\<close>

theorem dispatch_raises_counterexample:
  "dispatch_tool_call sample_env empty_state (tool_call ''create_reminder'' (PInt 5))
     = (Inl (PyExc TypeError (apos @ ''int'' @ apos @ '' object is not iterable'')), empty_state)
   \<and> dispatch_tool_call sample_env empty_state
       (tool_call ''create_reminder'' (PDict [(PStr ''summary'', PInt 5)]))
     = (Inl (PyExc AttributeError
          (apos @ ''int'' @ apos @ '' object has no attribute '' @ apos @ ''strip'' @ apos)),
        empty_state)"
  by code_simp

text \<open>
  C1, amended. For a request whose name is hashable and not one of the five registered
  names, dispatch returns exactly \<^verbatim>\<open>{"error": "Tool '<name>' is not available."}\<close> and leaves
  the state alone. For a registered name it converts the payload with \<^verbatim>\<open>dict\<close> and returns
  what the handler returns; an exception of the conversion or of the handler is raised to
  the caller. When the payload is a mapping with string values and the date parser rejects
  inputs with \<open>ValueError\<close> or \<open>TypeError\<close> only, dispatch of a registered tool returns a
  result and does not raise.
\<close>

theorem dispatch_contract:
  "(py_get function_call ''name'' PNone = Inr name \<and> hashable name
      \<and> name \<notin> PStr ` set TOOL_NAMES
    \<longrightarrow> dispatch_tool_call env st function_call =
          (Inr (error_result (''Tool '' @ apos @ py_str name @ apos @ '' is not available.'')), st))
   \<and> (py_get function_call ''name'' PNone = Inr (PStr n) \<and> n \<in> set TOOL_NAMES
      \<and> py_get function_call ''args'' (PDict []) = Inr a
    \<longrightarrow> dispatch_tool_call env st function_call =
          (case py_dict a of
             Inl exc \<Rightarrow> (Inl exc, st)
           | Inr arguments \<Rightarrow> call_handler env st n arguments))
   \<and> (py_get function_call ''name'' PNone = Inr (PStr n) \<and> n \<in> set TOOL_NAMES
      \<and> py_get function_call ''args'' (PDict []) = Inr (PDict arguments)
      \<and> string_valued arguments \<and> parser_contained env
    \<longrightarrow> (\<exists>r. fst (dispatch_tool_call env st function_call) = Inr r))"
proof -
  have "\<exists>r. fst (dispatch_tool_call env st function_call) = Inr r"
    if "py_get function_call ''name'' PNone = Inr (PStr n)" "n \<in> set TOOL_NAMES"
      "py_get function_call ''args'' (PDict []) = Inr (PDict arguments)"
      "string_valued arguments" "parser_contained env"
    using dispatch_registered[OF that(1,2,3), of env st]
      call_handler_contained[OF that(4,5,2), of st]
    by (simp add: py_dict_def)
  then show ?thesis
    using dispatch_unknown[of function_call name env st]
      dispatch_registered[of function_call n a env st]
    by blast
qed

theorem dispatch_contract_witness:
  "py_get (tool_call ''unknown_tool'' (PDict [])) ''name'' PNone = Inr (PStr ''unknown_tool'')
   \<and> hashable (PStr ''unknown_tool'')
   \<and> PStr ''unknown_tool'' \<notin> PStr ` set TOOL_NAMES
   \<and> dispatch_tool_call sample_env empty_state (tool_call ''unknown_tool'' (PDict []))
       = (Inr (error_result (''Tool '' @ apos @ py_str (PStr ''unknown_tool'') @ apos
                              @ '' is not available.'')), empty_state)
   \<and> py_get (tool_call ''create_reminder'' (PDict pay_rent_args)) ''name'' PNone
       = Inr (PStr ''create_reminder'')
   \<and> ''create_reminder'' \<in> set TOOL_NAMES
   \<and> py_get (tool_call ''create_reminder'' (PDict pay_rent_args)) ''args'' (PDict [])
       = Inr (PDict pay_rent_args)
   \<and> string_valued pay_rent_args
   \<and> parser_contained sample_env
   \<and> (\<exists>r. fst (dispatch_tool_call sample_env empty_state
                (tool_call ''create_reminder'' (PDict pay_rent_args))) = Inr r)
   \<and> dispatch_tool_call sample_env empty_state (tool_call ''create_reminder'' (PDict pay_rent_args))
       = (case py_dict (PDict pay_rent_args) of
            Inl exc \<Rightarrow> (Inl exc, empty_state)
          | Inr arguments \<Rightarrow> call_handler sample_env empty_state ''create_reminder'' arguments)"
proof -
  have h1: "py_get (tool_call ''unknown_tool'' (PDict [])) ''name'' PNone
              = Inr (PStr ''unknown_tool'')" by code_simp
  have h2: "hashable (PStr ''unknown_tool'')" by simp
  have h3: "PStr ''unknown_tool'' \<notin> PStr ` set TOOL_NAMES" by (auto simp: TOOL_NAMES_def)
  have h4: "py_get (tool_call ''create_reminder'' (PDict pay_rent_args)) ''name'' PNone
              = Inr (PStr ''create_reminder'')" by code_simp
  have h5: "''create_reminder'' \<in> set TOOL_NAMES" by (simp add: TOOL_NAMES_def)
  have h6: "py_get (tool_call ''create_reminder'' (PDict pay_rent_args)) ''args'' (PDict [])
              = Inr (PDict pay_rent_args)" by code_simp
  have h7: "string_valued pay_rent_args" by code_simp
  note h8 = sample_parser_contained
  note unknown = dispatch_contract[where function_call = "tool_call ''unknown_tool'' (PDict [])"
      and name = "PStr ''unknown_tool''" and env = sample_env and st = empty_state
      and n = "''create_reminder''" and a = "PDict pay_rent_args" and arguments = pay_rent_args]
  note known = dispatch_contract[where
      function_call = "tool_call ''create_reminder'' (PDict pay_rent_args)"
      and name = "PStr ''unknown_tool''" and env = sample_env and st = empty_state
      and n = "''create_reminder''" and a = "PDict pay_rent_args" and arguments = pay_rent_args]
  from unknown h1 h2 h3
  have c1: "dispatch_tool_call sample_env empty_state (tool_call ''unknown_tool'' (PDict []))
       = (Inr (error_result (''Tool '' @ apos @ py_str (PStr ''unknown_tool'') @ apos
                              @ '' is not available.'')), empty_state)"
    by blast
  from known h4 h5 h6 h7 h8
  have c2: "\<exists>r. fst (dispatch_tool_call sample_env empty_state
                (tool_call ''create_reminder'' (PDict pay_rent_args))) = Inr r"
    by blast
  from known h4 h5 h6
  have c3: "dispatch_tool_call sample_env empty_state
              (tool_call ''create_reminder'' (PDict pay_rent_args))
       = (case py_dict (PDict pay_rent_args) of
            Inl exc \<Rightarrow> (Inl exc, empty_state)
          | Inr arguments \<Rightarrow> call_handler sample_env empty_state ''create_reminder'' arguments)"
    by blast
  from h1 h2 h3 c1 h4 h5 h6 h7 h8 c2 c3 show ?thesis by blast
qed

subsection \<open>The loop\<close>

lemma loop_after_rounds:
  assumes "after_rounds n env s = Some s1"
    and "model_round env s1 = (r, s')" and "r \<noteq> Continue"
  shows "generate_until_complete env s = Some (round_outcome r, s')"
  using assms
proof (induction n arbitrary: s)
  case 0
  then show ?case
    by (cases r) (simp_all add: generate_until_complete.simps round_outcome_def)
next
  case (Suc n)
  from Suc.prems(1) obtain s2 where
    step: "model_round env s = (Continue, s2)" and rest: "after_rounds n env s2 = Some s1"
    by (auto split: prod.splits round_result.splits)
  from Suc.IH[OF rest Suc.prems(2,3)] step show ?case
    by (subst generate_until_complete.simps) simp
qed

lemma loop_returns:
  assumes "generate_until_complete env s = Some y"
  shows "\<exists>n s1 r. after_rounds n env s = Some s1 \<and> model_round env s1 = (r, snd y)
           \<and> r \<noteq> Continue \<and> fst y = round_outcome r"
proof (rule generate_until_complete.raw_induct
    [where P = "\<lambda>env s y. \<exists>n s1 r. after_rounds n env s = Some s1
                  \<and> model_round env s1 = (r, snd y) \<and> r \<noteq> Continue \<and> fst y = round_outcome r",
      OF _ assms])
  fix f and env :: "'a env" and s y
  assume IH: "\<And>env s y. f env s = Some y
                \<Longrightarrow> \<exists>n s1 r. after_rounds n env s = Some s1
                      \<and> model_round env s1 = (r, snd y) \<and> r \<noteq> Continue
                      \<and> fst y = round_outcome r"
    and body: "(case model_round env s of
                  (Finished model_message, s') \<Rightarrow> Some (Inr model_message, s')
                | (Continue, s') \<Rightarrow> f env s'
                | (Raised exc, s') \<Rightarrow> Some (Inl exc, s')) = Some y"
  obtain r s2 where mr: "model_round env s = (r, s2)" by (cases "model_round env s")
  show "\<exists>n s1 r. after_rounds n env s = Some s1 \<and> model_round env s1 = (r, snd y)
           \<and> r \<noteq> Continue \<and> fst y = round_outcome r"
  proof (cases r)
    case (Finished m)
    with body mr have "after_rounds 0 env s = Some s \<and> model_round env s = (r, snd y)
        \<and> r \<noteq> Continue \<and> fst y = round_outcome r"
      by (auto simp: round_outcome_def)
    then show ?thesis by blast
  next
    case Continue
    with body mr have "f env s2 = Some y" by simp
    from IH[OF this] obtain n s1 r' where
      "after_rounds n env s2 = Some s1" "model_round env s1 = (r', snd y)"
      "r' \<noteq> Continue" "fst y = round_outcome r'" by blast
    with mr Continue have "after_rounds (Suc n) env s = Some s1 \<and> model_round env s1 = (r', snd y)
        \<and> r' \<noteq> Continue \<and> fst y = round_outcome r'" by simp
    then show ?thesis by blast
  next
    case (Raised e)
    with body mr have "after_rounds 0 env s = Some s \<and> model_round env s = (r, snd y)
        \<and> r \<noteq> Continue \<and> fst y = round_outcome r"
      by (auto simp: round_outcome_def)
    then show ?thesis by blast
  qed
qed

lemma loop_returns_message_iff:
  "generate_until_complete env s = Some (Inr m, s')
     \<longleftrightarrow> (\<exists>n s1. after_rounds n env s = Some s1 \<and> model_round env s1 = (Finished m, s'))"
proof
  assume "generate_until_complete env s = Some (Inr m, s')"
  from loop_returns[OF this] obtain n s1 r where
    a: "after_rounds n env s = Some s1" and b: "model_round env s1 = (r, s')"
    and c: "r \<noteq> Continue" and d: "Inr m = round_outcome r" by auto
  from c d have "r = Finished m" by (cases r) (simp_all add: round_outcome_def)
  with a b show "\<exists>n s1. after_rounds n env s = Some s1 \<and> model_round env s1 = (Finished m, s')"
    by blast
next
  assume "\<exists>n s1. after_rounds n env s = Some s1 \<and> model_round env s1 = (Finished m, s')"
  then obtain n s1 where "after_rounds n env s = Some s1" "model_round env s1 = (Finished m, s')"
    by blast
  from loop_after_rounds[OF this] show "generate_until_complete env s = Some (Inr m, s')"
    by (simp add: round_outcome_def)
qed

lemma loop_terminates_iff:
  "(\<exists>y. generate_until_complete env s = Some y)
     \<longleftrightarrow> (\<exists>n s1. after_rounds n env s = Some s1 \<and> fst (model_round env s1) \<noteq> Continue)"
proof
  assume "\<exists>y. generate_until_complete env s = Some y"
  then obtain y where "generate_until_complete env s = Some y" ..
  from loop_returns[OF this] obtain n s1 r where
    "after_rounds n env s = Some s1" "model_round env s1 = (r, snd y)" "r \<noteq> Continue"
    by blast
  then have "after_rounds n env s = Some s1 \<and> fst (model_round env s1) \<noteq> Continue" by simp
  then show "\<exists>n s1. after_rounds n env s = Some s1 \<and> fst (model_round env s1) \<noteq> Continue"
    by blast
next
  assume "\<exists>n s1. after_rounds n env s = Some s1 \<and> fst (model_round env s1) \<noteq> Continue"
  then obtain n s1 where a: "after_rounds n env s = Some s1"
    and b: "fst (model_round env s1) \<noteq> Continue" by blast
  obtain r s' where c: "model_round env s1 = (r, s')" by (cases "model_round env s1")
  with b have "r \<noteq> Continue" by simp
  from loop_after_rounds[OF a c this] show "\<exists>y. generate_until_complete env s = Some y"
    by blast
qed

lemma model_round_finished_iff:
  "model_round env s = (Finished m, s')
     \<longleftrightarrow> (\<exists>c cs. generate_content env (history s) = Inr (c # cs) \<and> content_to_dict c = Inr m
            \<and> extract_function_calls m = Inr []
            \<and> s' = s\<lparr>history := history s @ [PDict m]\<rparr>)"
  by (auto simp: model_round_def Let_def split: sum.splits list.splits prod.splits option.splits)

lemma loop_never_returns:
  assumes "\<forall>s. fst (model_round env s) = Continue"
  shows "generate_until_complete env s = None"
proof (cases "generate_until_complete env s")
  case None
  then show ?thesis .
next
  case (Some y)
  from loop_returns[OF this] obtain s1 r where "model_round env s1 = (r, snd y)" "r \<noteq> Continue"
    by blast
  with assms[rule_format, of s1] show ?thesis by simp
qed

lemma looping_round: "fst (model_round looping_env s) = Continue"
  by (simp add: model_round_def looping_env_def sample_env_def tool_request_def
        content_to_dict_def extract_function_calls_def get_or_def dict_get_def py_iter_def
        bind_exc_def py_get_def dispatch_tool_call_def TOOL_NAMES_def py_item_def Let_def
        image_iff split: prod.splits)

text \<open>
  C2, as stated, fails in its second half: the loop has no round count and no cap. With a
  backend that requests a tool call on every round (here a call of a tool that is not
  registered, which dispatch answers with an error result), \<^verbatim>\<open>_generate_until_complete\<close>
  never returns.
\<close>

theorem loop_without_cap_counterexample:
  "generate_until_complete looping_env empty_session = None"
  using looping_round by (intro loop_never_returns) simp

text \<open>
  C2, amended. The loop returns a model message exactly when, after some number of rounds
  that each requested tools and completed, the backend answers with a message without tool
  calls: the round that ends the loop is the one whose first candidate has no part with a
  \<^verbatim>\<open>function_call\<close>, and the message is appended and returned. The loop ends at all
  (with a message or with an exception of the backend or of a tool) exactly when some round
  after finitely many tool rounds does not ask to continue. There is no cap on the rounds:
  when every round requests a tool call and completes, the loop never returns.
\<close>

theorem loop_terminates_iff_no_tool_calls:
  "(generate_until_complete env s = Some (Inr m, s')
      \<longleftrightarrow> (\<exists>n s1. after_rounds n env s = Some s1 \<and> model_round env s1 = (Finished m, s')))
   \<and> (model_round env s1 = (Finished m, s')
      \<longleftrightarrow> (\<exists>c cs. generate_content env (history s1) = Inr (c # cs) \<and> content_to_dict c = Inr m
             \<and> extract_function_calls m = Inr []
             \<and> s' = s1\<lparr>history := history s1 @ [PDict m]\<rparr>))
   \<and> ((\<exists>y. generate_until_complete env s = Some y)
      \<longleftrightarrow> (\<exists>n s2. after_rounds n env s = Some s2 \<and> fst (model_round env s2) \<noteq> Continue))
   \<and> ((\<forall>s. fst (model_round env s) = Continue) \<longrightarrow> generate_until_complete env s = None)"
  using loop_returns_message_iff[of env s m s'] model_round_finished_iff[of env s1 m s']
    loop_never_returns[of env s] loop_terminates_iff[of env s]
  by blast

theorem loop_terminates_iff_no_tool_calls_witness:
  "(\<forall>s. fst (model_round looping_env s) = Continue)
   \<and> generate_until_complete looping_env empty_session = None"
proof -
  have h: "\<forall>s. fst (model_round looping_env s) = Continue"
    using looping_round by simp
  from loop_terminates_iff_no_tool_calls[of looping_env empty_session] h
  have "generate_until_complete looping_env empty_session = None" by blast
  with h show ?thesis by blast
qed

subsection \<open>The transcript\<close>


lemma dispatch_all_prefix:
  "\<exists>rest. history (snd (dispatch_all env s calls)) = history s @ rest"
proof (induction calls arbitrary: s)
  case Nil
  then show ?case by simp
next
  case (Cons fc calls)
  obtain r st' where d: "dispatch_tool_call env (state s) fc = (r, st')"
    by (cases "dispatch_tool_call env (state s) fc")
  show ?case
  proof (cases r)
    case (Inl e)
    with d show ?thesis by simp
  next
    case (Inr resp)
    show ?thesis
    proof (cases "py_item fc ''name''")
      case (Inl e)
      with d Inr show ?thesis by simp
    next
      case name: (Inr name)
      from Cons.IH[of "s\<lparr>history := history s @ [tool_message name resp], state := st'\<rparr>"]
      obtain rest where
        "history (snd (dispatch_all env
            (s\<lparr>history := history s @ [tool_message name resp], state := st'\<rparr>) calls))
          = (history s @ [tool_message name resp]) @ rest" by auto
      with d Inr name show ?thesis by simp
    qed
  qed
qed

lemma model_round_prefix:
  "\<exists>rest. history (snd (model_round env s)) = history s @ rest"
proof -
  have step: "\<exists>rest. history s2 = history s @ rest"
    if "dispatch_all env (s\<lparr>history := history s @ [x]\<rparr>) calls = (e, s2)" for x calls e s2
    using dispatch_all_prefix[of env "s\<lparr>history := history s @ [x]\<rparr>" calls] that by auto
  show ?thesis
    by (auto simp: model_round_def Let_def dest: step
             split: sum.splits list.splits prod.splits option.splits)
qed



lemma after_rounds_prefix:
  assumes "after_rounds n env s = Some s1"
  shows "\<exists>rest. history s1 = history s @ rest"
  using assms
proof (induction n arbitrary: s)
  case 0
  then have "s1 = s" by simp
  then show ?case by simp
next
  case (Suc n)
  obtain r s2 where mr: "model_round env s = (r, s2)" by (cases "model_round env s")
  with Suc.prems have step: "model_round env s = (Continue, s2)"
    and rest: "after_rounds n env s2 = Some s1"
    by (cases r; simp)+
  from model_round_prefix[of env s] step obtain r1 where r1: "history s2 = history s @ r1"
    by auto
  from Suc.IH[OF rest] obtain r2 where r2: "history s1 = history s2 @ r2"
    by (elim exE)
  show ?case
    by (intro exI[of _ "r1 @ r2"]) (simp add: r1 r2)
qed

lemma loop_prefix:
  assumes "generate_until_complete env s = Some y"
  shows "\<exists>rest. history (snd y) = history s @ rest"
proof -
  from loop_returns[OF assms] obtain n s1 r where
    a: "after_rounds n env s = Some s1" and b: "model_round env s1 = (r, snd y)"
    by (elim exE conjE)
  from after_rounds_prefix[OF a] obtain r1 where r1: "history s1 = history s @ r1"
    by (elim exE)
  from model_round_prefix[of env s1] b obtain r2 where r2: "history (snd y) = history s1 @ r2"
    by auto
  show ?thesis
    by (intro exI[of _ "r1 @ r2"]) (simp add: r1 r2)
qed




lemma sample_chat:
  "chat sample_env empty_session ''hi'' None ''image/png'' = Some (Inr ''Done.'', sample_final_session)"
  by code_simp



subsection \<open>The entry check of chat\<close>

lemma chat_rejects:
  assumes "prompt = []" and "image_bytes = None"
  shows "chat env s prompt image_bytes mime_type
           = Some (Inl (PyExc ValueError ''Provide text, an image, or both.''), s)"
  using assms by (simp add: chat_def)

lemma chat_proceeds:
  assumes "\<not> (prompt = [] \<and> image_bytes = None)"
    and "chat env s prompt image_bytes mime_type = Some (r, s')"
  shows "\<exists>rest. history s' = history s @ [build_user_message prompt image_bytes mime_type] @ rest"
proof -
  let ?s1 = "s\<lparr>history := history s @ [build_user_message prompt image_bytes mime_type]\<rparr>"
  from assms obtain z where z: "generate_until_complete env ?s1 = Some z" and s': "snd z = s'"
    by (auto simp: chat_def Let_def split: option.splits sum.splits prod.splits)
  from loop_prefix[OF z] obtain rest where "history (snd z) = history ?s1 @ rest"
    by (elim exE)
  with s' have "history s' = history s @ [build_user_message prompt image_bytes mime_type] @ rest"
    by simp
  then show ?thesis by (rule exI)
qed

lemma chat_rejects_iff:
  "chat env s prompt image_bytes mime_type
     = Some (Inl (PyExc ValueError ''Provide text, an image, or both.''), s)
   \<longleftrightarrow> prompt = [] \<and> image_bytes = None"
proof
  assume c: "chat env s prompt image_bytes mime_type
               = Some (Inl (PyExc ValueError ''Provide text, an image, or both.''), s)"
  show "prompt = [] \<and> image_bytes = None"
  proof (rule ccontr)
    assume "\<not> (prompt = [] \<and> image_bytes = None)"
    from chat_proceeds[OF this c] obtain rest where
      "history s = history s @ [build_user_message prompt image_bytes mime_type] @ rest"
      by (elim exE)
    then show False by simp
  qed
next
  assume "prompt = [] \<and> image_bytes = None"
  then show "chat env s prompt image_bytes mime_type
               = Some (Inl (PyExc ValueError ''Provide text, an image, or both.''), s)"
    by (simp add: chat_rejects)
qed

lemma user_message_role:
  "py_item (build_user_message prompt image_bytes mime_type) ''role'' = Inr (PStr ''user'')"
  by (simp add: build_user_message_def py_item_def dict_get_def)

lemma user_message_parts:
  assumes "\<not> (prompt = [] \<and> image_bytes = None)"
  shows "\<exists>part parts.
           py_item (build_user_message prompt image_bytes mime_type) ''parts''
             = Inr (PList (part # parts))"
  using assms
  by (cases image_bytes) (auto simp: build_user_message_def py_item_def dict_get_def)

text \<open>
  C7, as stated, fails: an attachment that is present and empty does not count as absent.
  With the empty prompt and the empty byte string as image, \<^verbatim>\<open>chat\<close> raises nothing: it
  builds a user message whose only part is the attachment with empty data, appends it and
  runs the loop to the answer.
\<close>

theorem chat_empty_image_counterexample:
  "chat sample_env empty_session [] (Some []) ''image/png''
     = Some (Inr ''Done.'',
         sample_final_session
           \<lparr>history := build_user_message [] (Some []) ''image/png''
                          # tl (history sample_final_session)\<rparr>)
   \<and> build_user_message [] (Some []) ''image/png''
     = PDict [(PStr ''role'', PStr ''user''),
              (PStr ''parts'',
               PList [PDict [(PStr ''inline_data'',
                              PDict [(PStr ''mime_type'', PStr ''image/png''),
                                     (PStr ''data'', PStr [])])]])]"
  by code_simp

text \<open>
  C7, amended. \<^verbatim>\<open>chat\<close> raises \<open>ValueError\<close> with the transcript untouched exactly when the
  prompt is the empty string and the image is \<^verbatim>\<open>None\<close>; an image that is given, also the
  empty byte string, counts as present. In every other case the call appends the user
  message first, so the transcript of any outcome starts with the old transcript and the user
  message; the user message has the role \<^verbatim>\<open>user\<close> and at least one part.
\<close>

theorem chat_input_check:
  "(chat env s prompt image_bytes mime_type
      = Some (Inl (PyExc ValueError ''Provide text, an image, or both.''), s)
    \<longleftrightarrow> prompt = [] \<and> image_bytes = None)
   \<and> (\<not> (prompt = [] \<and> image_bytes = None)
        \<and> chat env s prompt image_bytes mime_type = Some (r, s')
      \<longrightarrow> (\<exists>rest. history s'
                    = history s @ [build_user_message prompt image_bytes mime_type] @ rest))
   \<and> py_item (build_user_message prompt image_bytes mime_type) ''role'' = Inr (PStr ''user'')
   \<and> (\<not> (prompt = [] \<and> image_bytes = None)
      \<longrightarrow> (\<exists>part parts.
             py_item (build_user_message prompt image_bytes mime_type) ''parts''
               = Inr (PList (part # parts))))"
proof (intro conjI impI)
  show "chat env s prompt image_bytes mime_type
      = Some (Inl (PyExc ValueError ''Provide text, an image, or both.''), s)
    \<longleftrightarrow> prompt = [] \<and> image_bytes = None"
    by (rule chat_rejects_iff)
next
  assume "\<not> (prompt = [] \<and> image_bytes = None)
    \<and> chat env s prompt image_bytes mime_type = Some (r, s')"
  then show "\<exists>rest. history s'
                    = history s @ [build_user_message prompt image_bytes mime_type] @ rest"
    using chat_proceeds[of prompt image_bytes env s mime_type r s'] by simp
next
  show "py_item (build_user_message prompt image_bytes mime_type) ''role'' = Inr (PStr ''user'')"
    by (rule user_message_role)
next
  assume "\<not> (prompt = [] \<and> image_bytes = None)"
  then show "\<exists>part parts.
             py_item (build_user_message prompt image_bytes mime_type) ''parts''
               = Inr (PList (part # parts))"
    by (rule user_message_parts)
qed

theorem chat_input_check_witness:
  "\<not> (''hi'' = [] \<and> (None :: 8 word list option) = None)
   \<and> chat sample_env empty_session ''hi'' None ''image/png''
       = Some (Inr ''Done.'', sample_final_session)
   \<and> (\<exists>rest. history sample_final_session
               = history empty_session @ [build_user_message ''hi'' None ''image/png''] @ rest)
   \<and> (\<exists>part parts.
         py_item (build_user_message ''hi'' None ''image/png'') ''parts''
           = Inr (PList (part # parts)))
   \<and> chat sample_env empty_session [] None ''image/png''
       = Some (Inl (PyExc ValueError ''Provide text, an image, or both.''), empty_session)"
proof -
  have h: "\<not> (''hi'' = [] \<and> (None :: 8 word list option) = None)" by simp
  note proceeds = chat_input_check[where env = sample_env and s = empty_session
      and prompt = "''hi''" and image_bytes = None and mime_type = "''image/png''"
      and r = "Inr ''Done.''" and s' = sample_final_session]
  note rejects = chat_input_check[where env = sample_env and s = empty_session
      and prompt = "[]" and image_bytes = None and mime_type = "''image/png''"
      and r = "Inr ''Done.''" and s' = sample_final_session]
  from proceeds h sample_chat
  have c1: "\<exists>rest. history sample_final_session
               = history empty_session @ [build_user_message ''hi'' None ''image/png''] @ rest"
    by blast
  from proceeds h
  have c2: "\<exists>part parts.
         py_item (build_user_message ''hi'' None ''image/png'') ''parts''
           = Inr (PList (part # parts))"
    by blast
  from rejects
  have c3: "chat sample_env empty_session [] None ''image/png''
       = Some (Inl (PyExc ValueError ''Provide text, an image, or both.''), empty_session)"
    by simp
  from h sample_chat c1 c2 c3 show ?thesis by (intro conjI)
qed

end
